theory Spec2Isabelle
  imports Main
begin

section \<open>Go values used by the plugin\<close>

subsection \<open>Errors\<close>

text \<open>
  A Go \<^verbatim>\<open>error\<close> value is modelled by what the plugin can observe of it: the string
  its \<^verbatim>\<open>Error()\<close> method returns, the further niladic string methods of its dynamic
  type (by name, with the string each returns), and the error its \<^verbatim>\<open>Unwrap()\<close> method
  returns, if it has one. A \<^verbatim>\<open>nil\<close> error is \<open>None\<close> of \<open>go_error option\<close>.
\<close>

datatype go_error =
  GoError (Error: string) (methods: "(string \<times> string) list") (Unwrap: "go_error option")

text \<open>
  \<^verbatim>\<open>type ErrorWithHelp interface { error; Help() string }\<close>: a dynamic type satisfies
  the interface when its method set has \<^verbatim>\<open>Help\<close>.
\<close>

definition implements_ErrorWithHelp :: "go_error \<Rightarrow> bool" where
  "implements_ErrorWithHelp e = (map_of (methods e) ''Help'' \<noteq> None)"

definition Help :: "go_error \<Rightarrow> string" where
  "Help e = (case map_of (methods e) ''Help'' of Some h \<Rightarrow> h | None \<Rightarrow> [])"

text \<open>
  \<^verbatim>\<open>errors.As(err, &helpErr)\<close> with a target of type \<^verbatim>\<open>ErrorWithHelp\<close>: the first error
  of the \<^verbatim>\<open>Unwrap\<close> chain that satisfies the interface. (No error of this program
  defines an \<^verbatim>\<open>As\<close> method of its own.)
\<close>

fun errors_As_ErrorWithHelp :: "go_error \<Rightarrow> go_error option" where
  "errors_As_ErrorWithHelp (GoError m ms u) =
     (if implements_ErrorWithHelp (GoError m ms u) then Some (GoError m ms u)
      else case u of None \<Rightarrow> None | Some e \<Rightarrow> errors_As_ErrorWithHelp e)"

text \<open>
  \<^verbatim>\<open>fmt.Errorf(prefix + "%v", x)\<close> has the message \<^verbatim>\<open>prefix + x\<close> and wraps nothing;
  \<^verbatim>\<open>fmt.Errorf(prefix + "%w", err)\<close> has the message \<^verbatim>\<open>prefix + err.Error()\<close> and
  unwraps to \<^verbatim>\<open>err\<close>.
\<close>

definition Errorf_v :: "string \<Rightarrow> string \<Rightarrow> go_error" where
  "Errorf_v prefix x = GoError (prefix @ x) [] None"

definition Errorf_w :: "string \<Rightarrow> go_error \<Rightarrow> go_error" where
  "Errorf_w prefix err = GoError (prefix @ Error err) [] (Some err)"

subsection \<open>Printing an integer (\<^verbatim>\<open>%d\<close>)\<close>

function fmt_nat :: "nat \<Rightarrow> string" where
  "fmt_nat n =
     (if n < 10 then [char_of (48 + n)]
      else fmt_nat (n div 10) @ [char_of (48 + n mod 10)])"
  by pat_completeness auto
termination
  by (relation "measure id") auto

definition fmt_d :: "int \<Rightarrow> string" where
  "fmt_d i = (if i < 0 then ''-'' @ fmt_nat (nat (- i)) else fmt_nat (nat i))"

subsection \<open>The records of the hosting library\<close>

text \<open>
  The structs of \<^verbatim>\<open>github.com/google/go-github/v32/github\<close> that the plugin reads and
  writes. A pointer field is an \<open>option\<close> (\<open>None\<close> is \<^verbatim>\<open>nil\<close>); a timestamp is a
  number. Fields the plugin never touches are left out.
\<close>

record CheckRunOutput =
  Title :: "string option"
  Summary :: "string option"
  Text :: "string option"

record CheckRun =
  ID :: "int option"
  Name :: "string option"
  HeadSHA :: "string option"
  DetailsURL :: "string option"
  ExternalID :: "string option"
  Status :: "string option"
  Conclusion :: "string option"
  StartedAt :: "nat option"
  CompletedAt :: "nat option"
  Output :: "CheckRunOutput option"

record CreateCheckRunOptions =
  Name :: string
  HeadSHA :: string
  DetailsURL :: "string option"
  ExternalID :: "string option"
  Status :: "string option"
  Conclusion :: "string option"
  StartedAt :: "nat option"
  CompletedAt :: "nat option"
  Output :: "CheckRunOutput option"

record UpdateCheckRunOptions =
  Name :: string
  Status :: "string option"
  Conclusion :: "string option"
  CompletedAt :: "nat option"
  Output :: "CheckRunOutput option"

record ListCheckRunsOptions =
  CheckName :: "string option"

record ListCheckRunsResults =
  Total :: "int option"
  CheckRuns :: "CheckRun list"

record PullRequestBranch =
  SHA :: "string option"

record PullRequest =
  Title :: "string option"
  Head :: "PullRequestBranch option"

record PullRequestEvent =
  Action :: "string option"
  PullRequest :: "PullRequest option"
  Before :: "string option"
  After :: "string option"

text \<open>The nil-safe getters of the library: a \<^verbatim>\<open>nil\<close> receiver or field reads as the zero value.\<close>

definition GetID :: "CheckRun option \<Rightarrow> int" where
  "GetID c = (case c of None \<Rightarrow> 0 | Some r \<Rightarrow> (case CheckRun.ID r of None \<Rightarrow> 0 | Some i \<Rightarrow> i))"

definition GetStatus :: "CheckRun option \<Rightarrow> string" where
  "GetStatus c =
     (case c of None \<Rightarrow> [] | Some r \<Rightarrow> (case CheckRun.Status r of None \<Rightarrow> [] | Some s \<Rightarrow> s))"

definition GetTitle :: "PullRequest option \<Rightarrow> string" where
  "GetTitle pr =
     (case pr of None \<Rightarrow> [] | Some r \<Rightarrow> (case PullRequest.Title r of None \<Rightarrow> [] | Some t \<Rightarrow> t))"

definition GetHead :: "PullRequest option \<Rightarrow> PullRequestBranch option" where
  "GetHead pr = (case pr of None \<Rightarrow> None | Some r \<Rightarrow> Head r)"

definition GetSHA :: "PullRequestBranch option \<Rightarrow> string" where
  "GetSHA b = (case b of None \<Rightarrow> [] | Some r \<Rightarrow> (case SHA r of None \<Rightarrow> [] | Some s \<Rightarrow> s))"

definition GetAction :: "PullRequestEvent \<Rightarrow> string" where
  "GetAction ev = (case Action ev of None \<Rightarrow> [] | Some a \<Rightarrow> a)"

definition GetPullRequest :: "PullRequestEvent \<Rightarrow> PullRequest option" where
  "GetPullRequest ev = PullRequest ev"

definition GetBefore :: "PullRequestEvent \<Rightarrow> string" where
  "GetBefore ev = (case Before ev of None \<Rightarrow> [] | Some s \<Rightarrow> s)"

definition GetAfter :: "PullRequestEvent \<Rightarrow> string" where
  "GetAfter ev = (case After ev of None \<Rightarrow> [] | Some s \<Rightarrow> s)"

section \<open>The remote Checks API\<close>

text \<open>
  The hosting service is an external collaborator. It is modelled as a store of check
  runs, each filed under its owner and repository, with the three calls of the design's
  section on external interfaces: create-check-run, list-check-runs(ref, name filter)
  and update-check-run(id, ...). Every call is written to \<open>trace\<close>, as is every
  invocation of the verification function, so that a theorem can say which calls a
  handler made. Every call first takes the next entry of \<open>script\<close>: \<open>Some e\<close> makes the
  call fail with the error \<open>e\<close> (network, authentication, rate limit) and leaves the
  store alone; the client library returns a \<^verbatim>\<open>nil\<close> result beside such an error.
\<close>

datatype call =
  CreateCheckRun_call string string CreateCheckRunOptions
  | ListCheckRunsForRef_call string string string ListCheckRunsOptions
  | UpdateCheckRun_call string string int UpdateCheckRunOptions
  | ProcessPR_call "PullRequest option"

record world =
  runs :: "(string \<times> string \<times> CheckRun) list"
  next_id :: int
  now :: nat
  script :: "go_error option list"
  trace :: "call list"

definition record_call :: "call \<Rightarrow> world \<Rightarrow> world" where
  "record_call c w = w\<lparr>trace := trace w @ [c]\<rparr>"

definition next_response :: "world \<Rightarrow> go_error option \<times> world" where
  "next_response w =
     (case script w of [] \<Rightarrow> (None, w) | x # xs \<Rightarrow> (x, w\<lparr>script := xs\<rparr>))"

text \<open>
  The service sets the status to completed whenever a conclusion is given; a run created
  with no status is queued.
\<close>

definition created_run :: "int \<Rightarrow> CreateCheckRunOptions \<Rightarrow> CheckRun" where
  "created_run i opts =
     \<lparr>CheckRun.ID = Some i,
      CheckRun.Name = Some (CreateCheckRunOptions.Name opts),
      CheckRun.HeadSHA = Some (CreateCheckRunOptions.HeadSHA opts),
      CheckRun.DetailsURL = CreateCheckRunOptions.DetailsURL opts,
      CheckRun.ExternalID = CreateCheckRunOptions.ExternalID opts,
      CheckRun.Status =
        (if CreateCheckRunOptions.Conclusion opts \<noteq> None then Some ''completed''
         else case CreateCheckRunOptions.Status opts of None \<Rightarrow> Some ''queued'' | Some s \<Rightarrow> Some s),
      CheckRun.Conclusion = CreateCheckRunOptions.Conclusion opts,
      CheckRun.StartedAt = CreateCheckRunOptions.StartedAt opts,
      CheckRun.CompletedAt = CreateCheckRunOptions.CompletedAt opts,
      CheckRun.Output = CreateCheckRunOptions.Output opts\<rparr>"

definition CreateCheckRun ::
  "string \<Rightarrow> string \<Rightarrow> CreateCheckRunOptions \<Rightarrow> world
    \<Rightarrow> (CheckRun option \<times> go_error option) \<times> world" where
  "CreateCheckRun owner repo opts w =
     (let (failure, w1) = next_response (record_call (CreateCheckRun_call owner repo opts) w)
      in case failure of
           Some e \<Rightarrow> ((None, Some e), w1)
         | None \<Rightarrow>
             (let r = created_run (next_id w1) opts
              in ((Some r, None),
                  w1\<lparr>runs := runs w1 @ [(owner, repo, r)], next_id := next_id w1 + 1\<rparr>)))"

definition matching_runs :: "string \<Rightarrow> string \<Rightarrow> string \<Rightarrow> ListCheckRunsOptions \<Rightarrow> world \<Rightarrow> CheckRun list" where
  "matching_runs owner repo ref opts w =
     map (\<lambda>(ow, rp, r). r)
       (filter (\<lambda>(ow, rp, r). ow = owner \<and> rp = repo \<and> CheckRun.HeadSHA r = Some ref \<and>
                  (case CheckName opts of None \<Rightarrow> True | Some n \<Rightarrow> CheckRun.Name r = Some n))
          (runs w))"

definition ListCheckRunsForRef ::
  "string \<Rightarrow> string \<Rightarrow> string \<Rightarrow> ListCheckRunsOptions \<Rightarrow> world
    \<Rightarrow> (ListCheckRunsResults option \<times> go_error option) \<times> world" where
  "ListCheckRunsForRef owner repo ref opts w =
     (let (failure, w1) = next_response (record_call (ListCheckRunsForRef_call owner repo ref opts) w)
      in case failure of
           Some e \<Rightarrow> ((None, Some e), w1)
         | None \<Rightarrow>
             (let ms = matching_runs owner repo ref opts w1
              in ((Some \<lparr>Total = Some (int (length ms)), CheckRuns = ms\<rparr>, None), w1)))"

definition updated_run :: "UpdateCheckRunOptions \<Rightarrow> CheckRun \<Rightarrow> CheckRun" where
  "updated_run opts r =
     r\<lparr>CheckRun.Name := Some (UpdateCheckRunOptions.Name opts),
       CheckRun.Status :=
         (if UpdateCheckRunOptions.Conclusion opts \<noteq> None then Some ''completed''
          else case UpdateCheckRunOptions.Status opts of None \<Rightarrow> CheckRun.Status r | Some s \<Rightarrow> Some s),
       CheckRun.Conclusion :=
         (case UpdateCheckRunOptions.Conclusion opts of None \<Rightarrow> CheckRun.Conclusion r | Some c \<Rightarrow> Some c),
       CheckRun.CompletedAt :=
         (case UpdateCheckRunOptions.CompletedAt opts of None \<Rightarrow> CheckRun.CompletedAt r | Some t \<Rightarrow> Some t),
       CheckRun.Output :=
         (case UpdateCheckRunOptions.Output opts of None \<Rightarrow> CheckRun.Output r | Some out \<Rightarrow> Some out)\<rparr>"

definition is_run :: "string \<Rightarrow> string \<Rightarrow> int \<Rightarrow> string \<times> string \<times> CheckRun \<Rightarrow> bool" where
  "is_run owner repo i = (\<lambda>(ow, rp, r). ow = owner \<and> rp = repo \<and> CheckRun.ID r = Some i)"

definition UpdateCheckRun ::
  "string \<Rightarrow> string \<Rightarrow> int \<Rightarrow> UpdateCheckRunOptions \<Rightarrow> world
    \<Rightarrow> (CheckRun option \<times> go_error option) \<times> world" where
  "UpdateCheckRun owner repo i opts w =
     (let (failure, w1) = next_response (record_call (UpdateCheckRun_call owner repo i opts) w)
      in case failure of
           Some e \<Rightarrow> ((None, Some e), w1)
         | None \<Rightarrow>
             (case filter (is_run owner repo i) (runs w1) of
                [] \<Rightarrow> ((None, Some (GoError ''404 Not Found'' [] None)), w1)
              | (ow, rp, r) # _ \<Rightarrow>
                  ((Some (updated_run opts r), None),
                   w1\<lparr>runs := map (\<lambda>(ow, rp, r). if is_run owner repo i (ow, rp, r)
                                        then (ow, rp, updated_run opts r) else (ow, rp, r))
                                  (runs w1)\<rparr>)))"

section \<open>verify/plugin.go\<close>

text \<open>
  Modelled from the spec: the status constants \<^verbatim>\<open>Started\<close> and \<^verbatim>\<open>Finished\<close>, their
  \<^verbatim>\<open>Equal\<close> and \<^verbatim>\<open>StringP\<close> methods and the \<^verbatim>\<open>ActionsEnv\<close> struct are declared in files
  of package \<^verbatim>\<open>verify\<close> that are not at hand. The design gives a check run's status as
  one of queued, in-progress, completed; \<^verbatim>\<open>Started\<close> is the status of a run that is
  running and \<^verbatim>\<open>Finished\<close> the status of a completed one. \<^verbatim>\<open>ActionsEnv\<close> has the fields
  the plugin reads; its \<^verbatim>\<open>Client\<close> is the \<open>world\<close> that every function below threads.
\<close>

definition Started :: string where
  "Started = ''in-progress''"

definition Finished :: string where
  "Finished = ''completed''"

definition Equal :: "string \<Rightarrow> string \<Rightarrow> bool" where
  "Equal s other = (s = other)"

definition StringP :: "string \<Rightarrow> string option" where
  "StringP s = Some s"

record ActionsEnv =
  Owner :: string
  Repo :: string
  Event :: PullRequestEvent

text \<open>
  \<^verbatim>\<open>PRPlugin\<close>. The embedded logger only writes diagnostics (\<^verbatim>\<open>debugf\<close>); those calls
  have no effect on what the functions return or send and are not modelled.
\<close>

record PRPlugin =
  ProcessPR :: "PullRequest option \<Rightarrow> string \<times> go_error option"
  Name :: string
  Title :: string

text \<open>A function that can panic returns \<open>Panic\<close> in place of its results.\<close>

datatype 'a result = Panic | Return 'a

text \<open>\<^verbatim>\<open>processPR\<close> executes the provided \<^verbatim>\<open>ProcessPR\<close> and parses the result.\<close>

definition processPR ::
  "PRPlugin \<Rightarrow> PullRequest option \<Rightarrow> world
    \<Rightarrow> (string \<times> string \<times> string \<times> go_error option) \<times> world" where
  "processPR p pr w =
     (let (text, err) = ProcessPR p pr;
          w1 = record_call (ProcessPR_call pr) w
      in case err of
           Some e \<Rightarrow>
             ((''failure'', Error e,
               (case errors_As_ErrorWithHelp e of Some helpErr \<Rightarrow> Help helpErr | None \<Rightarrow> text),
               err), w1)
         | None \<Rightarrow> ((''success'', ''Success'', text, err), w1))"

text \<open>\<^verbatim>\<open>createCheckRun\<close> creates a new Check-Run.\<close>

definition createCheckRun ::
  "PRPlugin \<Rightarrow> string \<Rightarrow> string \<Rightarrow> string \<Rightarrow> world
    \<Rightarrow> (CheckRun option \<times> go_error option) \<times> world" where
  "createCheckRun p owner repo headSHA w =
     (let ((checkRun, err), w1) =
            CreateCheckRun owner repo
              \<lparr>CreateCheckRunOptions.Name = PRPlugin.Name p,
               CreateCheckRunOptions.HeadSHA = headSHA,
               CreateCheckRunOptions.DetailsURL = None,
               CreateCheckRunOptions.ExternalID = None,
               CreateCheckRunOptions.Status = StringP Started,
               CreateCheckRunOptions.Conclusion = None,
               CreateCheckRunOptions.StartedAt = None,
               CreateCheckRunOptions.CompletedAt = None,
               CreateCheckRunOptions.Output = None\<rparr> w
      in case err of
           Some e \<Rightarrow> ((None, Some (Errorf_w ''unable to create check run: '' e)), w1)
         | None \<Rightarrow> ((checkRun, None), w1))"

text \<open>
  \<^verbatim>\<open>getCheckRun\<close> returns the Check-Run, creating it if it doesn't exist. The switch
  dereferences \<^verbatim>\<open>checkRunList.Total\<close> and, when it is 1, indexes \<^verbatim>\<open>CheckRuns[0]\<close>.
\<close>

definition getCheckRun ::
  "PRPlugin \<Rightarrow> string \<Rightarrow> string \<Rightarrow> string \<Rightarrow> world
    \<Rightarrow> (CheckRun option \<times> go_error option) result \<times> world" where
  "getCheckRun p owner repo headSHA w =
     (let ((checkRunList, err), w1) =
            ListCheckRunsForRef owner repo headSHA \<lparr>CheckName = Some (PRPlugin.Name p)\<rparr> w
      in case err of
           Some e \<Rightarrow> (Return (None, Some (Errorf_w ''unable to list check runs: '' e)), w1)
         | None \<Rightarrow>
             (case checkRunList of
                None \<Rightarrow> (Panic, w1)
              | Some l \<Rightarrow>
                  (case Total l of
                     None \<Rightarrow> (Panic, w1)
                   | Some n \<Rightarrow>
                       if n = 0 then
                         (let (res, w2) = createCheckRun p owner repo headSHA w1 in (Return res, w2))
                       else if n = 1 then
                         (case CheckRuns l of
                            [] \<Rightarrow> (Panic, w1)
                          | r # _ \<Rightarrow> (Return (Some r, None), w1))
                       else if n > 1 then
                         (Return (None, Some (GoError
                            (''multiple instances of '' @ [CHR 0x60] @ PRPlugin.Name p @ [CHR 0x60]
                               @ '' check run found on '' @ owner @ ''/'' @ repo @ '' @ '' @ headSHA)
                            [] None)), w1)
                       else
                         (Return (None, Some (GoError
                            (''negative number of instances ('' @ fmt_d n @ '') of '' @ [CHR 0x60]
                               @ PRPlugin.Name p @ [CHR 0x60]
                               @ '' check run found on '' @ owner @ ''/'' @ repo @ '' @ '' @ headSHA)
                            [] None)), w1))))"

text \<open>
  \<^verbatim>\<open>resetCheckRun\<close> returns the Check-Run with executing status, creating it if it
  doesn't exist. The update call's results are assigned to the same variables
  \<^verbatim>\<open>checkRun\<close> and \<^verbatim>\<open>err\<close> that held the results of \<^verbatim>\<open>getCheckRun\<close>.
\<close>

definition resetCheckRun ::
  "PRPlugin \<Rightarrow> string \<Rightarrow> string \<Rightarrow> string \<Rightarrow> world
    \<Rightarrow> (CheckRun option \<times> go_error option) result \<times> world" where
  "resetCheckRun p owner repo headSHA w =
     (case getCheckRun p owner repo headSHA w of
        (Panic, w1) \<Rightarrow> (Panic, w1)
      | (Return (checkRun, err), w1) \<Rightarrow>
          if err \<noteq> None \<or> Equal Started (GetStatus checkRun) then (Return (checkRun, err), w1)
          else
            (let ((checkRun2, err2), w2) =
                   UpdateCheckRun owner repo (GetID checkRun)
                     \<lparr>UpdateCheckRunOptions.Name = PRPlugin.Name p,
                      UpdateCheckRunOptions.Status = Some ''in-progress'',
                      UpdateCheckRunOptions.Conclusion = None,
                      UpdateCheckRunOptions.CompletedAt = None,
                      UpdateCheckRunOptions.Output = None\<rparr> w1
             in case err2 of
                  Some e \<Rightarrow> (Return (checkRun2, Some (Errorf_w ''unable to reset check run: '' e)), w2)
                | None \<Rightarrow> (Return (checkRun2, None), w2)))"

text \<open>\<^verbatim>\<open>finishCheckRun\<close> updates the Check-Run with id \<^verbatim>\<open>checkRunID\<close> setting its output.\<close>

definition finishCheckRun ::
  "PRPlugin \<Rightarrow> string \<Rightarrow> string \<Rightarrow> int \<Rightarrow> string \<Rightarrow> string \<Rightarrow> string \<Rightarrow> world
    \<Rightarrow> (CheckRun option \<times> go_error option) \<times> world" where
  "finishCheckRun p owner repo checkRunID conclusion summary text w =
     (let ((checkRun, err), w1) =
            UpdateCheckRun owner repo checkRunID
              \<lparr>UpdateCheckRunOptions.Name = PRPlugin.Name p,
               UpdateCheckRunOptions.Status = None,
               UpdateCheckRunOptions.Conclusion = Some conclusion,
               UpdateCheckRunOptions.CompletedAt = Some (now w),
               UpdateCheckRunOptions.Output =
                 Some \<lparr>CheckRunOutput.Title = Some (PRPlugin.Title p),
                       CheckRunOutput.Summary = Some summary,
                       CheckRunOutput.Text = Some text\<rparr>\<rparr> w
      in case err of
           Some e \<Rightarrow> ((checkRun, Some (Errorf_w ''unable to update check run with results: '' e)), w1)
         | None \<Rightarrow> ((checkRun, None), w1))"

text \<open>
  \<^verbatim>\<open>duplicateCheckRun\<close> creates a new Check-Run with the same info as the provided one
  but for a new \<^verbatim>\<open>headSHA\<close>. Reading the fields of a \<^verbatim>\<open>nil\<close> run panics.
\<close>

definition duplicateCheckRun ::
  "PRPlugin \<Rightarrow> string \<Rightarrow> string \<Rightarrow> string \<Rightarrow> CheckRun option \<Rightarrow> world
    \<Rightarrow> (CheckRun option \<times> go_error option) result \<times> world" where
  "duplicateCheckRun p owner repo headSHA checkRun w =
     (case checkRun of
        None \<Rightarrow> (Panic, w)
      | Some c \<Rightarrow>
          (let ((checkRun2, err), w1) =
                 CreateCheckRun owner repo
                   \<lparr>CreateCheckRunOptions.Name = PRPlugin.Name p,
                    CreateCheckRunOptions.HeadSHA = headSHA,
                    CreateCheckRunOptions.DetailsURL = CheckRun.DetailsURL c,
                    CreateCheckRunOptions.ExternalID = CheckRun.ExternalID c,
                    CreateCheckRunOptions.Status = CheckRun.Status c,
                    CreateCheckRunOptions.Conclusion = CheckRun.Conclusion c,
                    CreateCheckRunOptions.StartedAt = CheckRun.StartedAt c,
                    CreateCheckRunOptions.CompletedAt = CheckRun.CompletedAt c,
                    CreateCheckRunOptions.Output = CheckRun.Output c\<rparr> w
           in case err of
                Some e \<Rightarrow> (Return (None, Some (Errorf_w ''unable to create duplicate check run: '' e)), w1)
              | None \<Rightarrow> (Return (checkRun2, None), w1)))"

text \<open>\<^verbatim>\<open>processAndSubmit\<close> performs the checks and submits the result.\<close>

definition processAndSubmit ::
  "PRPlugin \<Rightarrow> ActionsEnv \<Rightarrow> CheckRun option \<Rightarrow> world
    \<Rightarrow> (CheckRun option \<times> go_error option) \<times> world" where
  "processAndSubmit p env checkRun w =
     (let ((conclusion, summary, text, procErr), w1) = processPR p (PullRequest (Event env)) w;
          ((checkRun2, err), w2) =
            finishCheckRun p (Owner env) (Repo env) (GetID checkRun) conclusion summary text w1
      in case err of
           Some e \<Rightarrow> ((checkRun2, Some e), w2)
         | None \<Rightarrow>
             (case procErr of
                Some pe \<Rightarrow> ((checkRun2, Some (Errorf_v ''failed: '' (Error pe))), w2)
              | None \<Rightarrow> ((checkRun2, None), w2)))"

text \<open>
  The check both \<^verbatim>\<open>onReopen\<close> and \<^verbatim>\<open>onSync\<close> end with:
  \<^verbatim>\<open>if *checkRun.Conclusion == "failure" { return fmt.Errorf("failed: %v", *checkRun.Output.Summary) }; return nil\<close>.
  Each \<^verbatim>\<open>*\<close> panics on a \<^verbatim>\<open>nil\<close> pointer, as does reading \<^verbatim>\<open>Summary\<close> through a
  \<^verbatim>\<open>nil\<close> \<^verbatim>\<open>Output\<close> or any field through a \<^verbatim>\<open>nil\<close> run.
\<close>

definition report_failure :: "CheckRun option \<Rightarrow> go_error option result" where
  "report_failure checkRun =
     (case checkRun of
        None \<Rightarrow> Panic
      | Some c \<Rightarrow>
          (case CheckRun.Conclusion c of
             None \<Rightarrow> Panic
           | Some conclusion \<Rightarrow>
               if conclusion = ''failure'' then
                 (case CheckRun.Output c of
                    None \<Rightarrow> Panic
                  | Some out \<Rightarrow>
                      (case CheckRunOutput.Summary out of
                         None \<Rightarrow> Panic
                       | Some summary \<Rightarrow> Return (Some (Errorf_v ''failed: '' summary))))
               else Return None))"

text \<open>\<^verbatim>\<open>onOpen\<close> handles "open" actions.\<close>

definition onOpen :: "PRPlugin \<Rightarrow> ActionsEnv \<Rightarrow> world \<Rightarrow> go_error option result \<times> world" where
  "onOpen p env w =
     (let ((checkRun, err), w1) =
            createCheckRun p (Owner env) (Repo env) (GetSHA (GetHead (GetPullRequest (Event env)))) w
      in case err of
           Some e \<Rightarrow> (Return (Some e), w1)
         | None \<Rightarrow>
             (let ((_, err2), w2) = processAndSubmit p env checkRun w1 in (Return err2, w2)))"

text \<open>\<^verbatim>\<open>onReopen\<close> handles "reopen" actions.\<close>

definition onReopen :: "PRPlugin \<Rightarrow> ActionsEnv \<Rightarrow> world \<Rightarrow> go_error option result \<times> world" where
  "onReopen p env w =
     (case getCheckRun p (Owner env) (Repo env) (GetSHA (GetHead (GetPullRequest (Event env)))) w of
        (Panic, w1) \<Rightarrow> (Panic, w1)
      | (Return (checkRun, err), w1) \<Rightarrow>
          (case err of
             Some e \<Rightarrow> (Return (Some e), w1)
           | None \<Rightarrow>
               if \<not> Equal Finished (GetStatus checkRun) then
                 (let ((_, err2), w2) = processAndSubmit p env checkRun w1 in (Return err2, w2))
               else (report_failure checkRun, w1)))"

text \<open>\<^verbatim>\<open>onEdit\<close> handles "edit" actions.\<close>

definition onEdit :: "PRPlugin \<Rightarrow> ActionsEnv \<Rightarrow> world \<Rightarrow> go_error option result \<times> world" where
  "onEdit p env w =
     (case resetCheckRun p (Owner env) (Repo env) (GetSHA (GetHead (GetPullRequest (Event env)))) w of
        (Panic, w1) \<Rightarrow> (Panic, w1)
      | (Return (checkRun, err), w1) \<Rightarrow>
          (case err of
             Some e \<Rightarrow> (Return (Some e), w1)
           | None \<Rightarrow>
               (let ((_, err2), w2) = processAndSubmit p env checkRun w1 in (Return err2, w2))))"

text \<open>
  \<^verbatim>\<open>onSync\<close> handles "synchronize" actions. \<open>onSync_duplicate\<close> is the end of its body,
  from "Create a duplicate for the new commit" on, which both branches of the status
  test reach.
\<close>

definition onSync_duplicate ::
  "PRPlugin \<Rightarrow> ActionsEnv \<Rightarrow> CheckRun option \<Rightarrow> world \<Rightarrow> go_error option result \<times> world" where
  "onSync_duplicate p env checkRun w =
     (case duplicateCheckRun p (Owner env) (Repo env) (GetAfter (Event env)) checkRun w of
        (Panic, w1) \<Rightarrow> (Panic, w1)
      | (Return (checkRun2, err), w1) \<Rightarrow>
          (case err of
             Some e \<Rightarrow> (Return (Some e), w1)
           | None \<Rightarrow> (report_failure checkRun2, w1)))"

definition onSync :: "PRPlugin \<Rightarrow> ActionsEnv \<Rightarrow> world \<Rightarrow> go_error option result \<times> world" where
  "onSync p env w =
     (case getCheckRun p (Owner env) (Repo env) (GetBefore (Event env)) w of
        (Panic, w1) \<Rightarrow> (Panic, w1)
      | (Return (checkRun, err), w1) \<Rightarrow>
          (case err of
             Some e \<Rightarrow> (Return (Some e), w1)
           | None \<Rightarrow>
               if \<not> Equal Finished (GetStatus checkRun) then
                 (let ((checkRun2, err2), w2) = processAndSubmit p env checkRun w1
                  in case err2 of
                       Some e \<Rightarrow> (Return (Some e), w2)
                     | None \<Rightarrow> onSync_duplicate p env checkRun2 w2)
               else onSync_duplicate p env checkRun w1))"

text \<open>\<^verbatim>\<open>entrypoint\<close> will call the corresponding handler.\<close>

definition entrypoint :: "PRPlugin \<Rightarrow> ActionsEnv \<Rightarrow> world \<Rightarrow> go_error option result \<times> world" where
  "entrypoint p env w =
     (let action = GetAction (Event env)
      in if action = ''open'' then onOpen p env w
         else if action = ''reopen'' then onReopen p env w
         else if action = ''edit'' then onEdit p env w
         else if action = ''synchronize'' then onSync p env w
         else (Return None, w))"

section \<open>verify/type.go\<close>

text \<open>
  Modelled from the spec: package \<^verbatim>\<open>notes/common\<close> (the title classifier) is not at
  hand. The design gives its boundary: \<^verbatim>\<open>classify(title)\<close> returns a category and a
  cleaned title, the category being one of breaking, feature, fix, docs, other/infra or
  the sentinel "uncategorized". The classifier itself, and the emoji and display label
  of a category, are parameters of \<open>verifyPRType\<close>.
\<close>

datatype PRType = UncategorizedPR | BreakingPR | FeaturePR | BugfixPR | DocsPR | InfraPR

record notes_common =
  PRTypeFromTitle :: "string \<Rightarrow> PRType \<times> string"
  Emoji :: "PRType \<Rightarrow> string"
  PRType_String :: "PRType \<Rightarrow> string"

text \<open>
  The verb \<^verbatim>\<open>%#q\<close> of \<^verbatim>\<open>fmt\<close> prints a string between backquotes when
  \<^verbatim>\<open>strconv.CanBackquote\<close> allows it, which it does for a string of printable ASCII
  characters and tabs with no backquote. What it prints for any other string (a quoted,
  escaped form, or the backquoted string when its other bytes are well-formed UTF-8) is
  the parameter \<open>rest\<close>.
\<close>

definition plain_ascii :: "string \<Rightarrow> bool" where
  "plain_ascii s =
     list_all (\<lambda>c. (32 \<le> (of_char c :: nat) \<or> c = CHR 0x09) \<and> (of_char c :: nat) < 127 \<and> c \<noteq> CHR 0x60) s"

definition fmt_sharp_q :: "(string \<Rightarrow> string) \<Rightarrow> string \<Rightarrow> string" where
  "fmt_sharp_q rest s = (if plain_ascii s then [CHR 0x60] @ s @ [CHR 0x60] else rest s)"

record prTitleTypeError =
  title :: string

definition prTitleTypeError_Error :: "prTitleTypeError \<Rightarrow> string" where
  "prTitleTypeError_Error e = ''no matching PR type indicator found in title''"

definition prTitleTypeError_Details :: "(string \<Rightarrow> string) \<Rightarrow> prTitleTypeError \<Rightarrow> string" where
  "prTitleTypeError_Details rest e =
     ''I saw a title of '' @ fmt_sharp_q rest (title e)
     @ '', which doesn't seem to have any of the acceptable prefixes.'' @ [CHR 0x0A, CHR 0x0A]
     @ ''You need to have one of these as the prefix of your PR title:'' @ [CHR 0x0A, CHR 0x0A]
     @ ''- Breaking change: '' @ [CHR 0xE2, CHR 0x9A, CHR 0xA0]
     @ '' ('' @ fmt_sharp_q rest '':warning:'' @ '')'' @ [CHR 0x0A]
     @ ''- Non-breaking feature: '' @ [CHR 0xE2, CHR 0x9C, CHR 0xA8]
     @ '' ('' @ fmt_sharp_q rest '':sparkles:'' @ '')'' @ [CHR 0x0A]
     @ ''- Patch fix: '' @ [CHR 0xF0, CHR 0x9F, CHR 0x90, CHR 0x9B]
     @ '' ('' @ fmt_sharp_q rest '':bug:'' @ '')'' @ [CHR 0x0A]
     @ ''- Docs: '' @ [CHR 0xF0, CHR 0x9F, CHR 0x93, CHR 0x96]
     @ '' ('' @ fmt_sharp_q rest '':book:'' @ '')'' @ [CHR 0x0A]
     @ ''- Infra/Tests/Other: '' @ [CHR 0xF0, CHR 0x9F, CHR 0x8C, CHR 0xB1]
     @ '' ('' @ fmt_sharp_q rest '':seedling:'' @ '')'' @ [CHR 0x0A, CHR 0x0A]
     @ ''More details can be found at [sigs.k8s.io/kubebuilder-release-tools/VERSIONING.md](https://sigs.k8s.io/kubebuilder-release-tools/VERSIONING.md).''"

text \<open>
  A \<^verbatim>\<open>prTitleTypeError\<close> returned as an \<^verbatim>\<open>error\<close>: its method set is \<^verbatim>\<open>Error\<close> and
  \<^verbatim>\<open>Details\<close>, and it has no \<^verbatim>\<open>Unwrap\<close>.
\<close>

definition prTitleTypeError_as_error :: "(string \<Rightarrow> string) \<Rightarrow> prTitleTypeError \<Rightarrow> go_error" where
  "prTitleTypeError_as_error rest e =
     GoError (prTitleTypeError_Error e) [(''Details'', prTitleTypeError_Details rest e)] None"

text \<open>\<^verbatim>\<open>verifyPRType\<close> checks that the PR title contains a prefix that defines its type.\<close>

definition verifyPRType ::
  "notes_common \<Rightarrow> (string \<Rightarrow> string) \<Rightarrow> PullRequest option \<Rightarrow> string \<times> go_error option" where
  "verifyPRType notes rest pr =
     (let (prType, finalTitle) = PRTypeFromTitle notes (GetTitle pr)
      in if prType = UncategorizedPR then
           ([], Some (prTitleTypeError_as_error rest \<lparr>title = GetTitle pr\<rparr>))
         else
           (''Found '' @ Emoji notes prType @ '' PR ('' @ PRType_String notes prType
              @ '') with final title:'' @ [CHR 0x0A, CHR 0x0A, CHR 0x09] @ finalTitle @ [CHR 0x0A],
            None))"

section \<open>Notions used to state the properties\<close>

text \<open>
  \<open>call_succeeds w\<close>: the next remote call made in \<open>w\<close> does not fail.
  \<open>after_call c w\<close>: the world once the call \<open>c\<close> has been recorded and its entry of the
  script consumed; the store is the one of \<open>w\<close>.
\<close>

definition call_succeeds :: "world \<Rightarrow> bool" where
  "call_succeeds w = (case script w of [] \<Rightarrow> True | x # _ \<Rightarrow> x = None)"

definition after_call :: "call \<Rightarrow> world \<Rightarrow> world" where
  "after_call c w = snd (next_response (record_call c w))"

text \<open>The calls made between two worlds, and whether one of them ran the verification function.\<close>

definition new_calls :: "world \<Rightarrow> world \<Rightarrow> call list" where
  "new_calls w w' = drop (length (trace w)) (trace w')"

fun is_ProcessPR_call :: "call \<Rightarrow> bool" where
  "is_ProcessPR_call (ProcessPR_call _) = True"
| "is_ProcessPR_call _ = False"

text \<open>
  The action kinds of the design's event record (opened, reopened, edited, synchronized,
  other), and the kind of an action string as the switch of \<^verbatim>\<open>entrypoint\<close> tells them
  apart: its four case labels are "open", "reopen", "edit" and "synchronize" (the
  design's section on external interfaces lists the kinds by these very strings), and
  every other string is of the kind other.
\<close>

datatype action_kind = Opened | Reopened | Edited | Synchronized | Other

definition kind_of_action :: "string \<Rightarrow> action_kind" where
  "kind_of_action a =
     (if a = ''open'' then Opened
      else if a = ''reopen'' then Reopened
      else if a = ''edit'' then Edited
      else if a = ''synchronize'' then Synchronized
      else Other)"

text \<open>What identifies a stored run and the commit it is bound to.\<close>

definition run_key :: "string \<times> string \<times> CheckRun \<Rightarrow> string \<times> string \<times> int option \<times> string option" where
  "run_key = (\<lambda>(ow, rp, c). (ow, rp, CheckRun.ID c, CheckRun.HeadSHA c))"

text \<open>
  \<open>only_remote_calls w w'\<close>: the trace of \<open>w'\<close> extends the one of \<open>w\<close> by remote calls
  only (the verification function was not run in between), and the clock is the same.
\<close>

definition only_remote_calls :: "world \<Rightarrow> world \<Rightarrow> bool" where
  "only_remote_calls w w' =
     (now w' = now w \<and> take (length (trace w)) (trace w') = trace w \<and>
      \<not> list_ex is_ProcessPR_call (new_calls w w'))"

text \<open>
  \<open>ends_with_submit p env w out\<close>: the handler result \<open>out\<close>, started in \<open>w\<close>, either is
  what \<open>processAndSubmit\<close> returned in a world reached by remote calls only, or was
  reached by remote calls only.
\<close>

definition ends_with_submit :: "PRPlugin \<Rightarrow> ActionsEnv \<Rightarrow> world \<Rightarrow> go_error option result \<times> world \<Rightarrow> bool" where
  "ends_with_submit p env w out =
     ((\<exists>c w1. only_remote_calls w w1 \<and>
         out = (Return (snd (fst (processAndSubmit p env c w1))), snd (processAndSubmit p env c w1)))
      \<or> only_remote_calls w (snd out))"

text \<open>The options \<^verbatim>\<open>createCheckRun\<close>, \<^verbatim>\<open>finishCheckRun\<close> and \<^verbatim>\<open>resetCheckRun\<close> send.\<close>

definition create_options :: "PRPlugin \<Rightarrow> string \<Rightarrow> CreateCheckRunOptions" where
  "create_options p headSHA =
     \<lparr>CreateCheckRunOptions.Name = PRPlugin.Name p,
      CreateCheckRunOptions.HeadSHA = headSHA,
      CreateCheckRunOptions.DetailsURL = None,
      CreateCheckRunOptions.ExternalID = None,
      CreateCheckRunOptions.Status = Some Started,
      CreateCheckRunOptions.Conclusion = None,
      CreateCheckRunOptions.StartedAt = None,
      CreateCheckRunOptions.CompletedAt = None,
      CreateCheckRunOptions.Output = None\<rparr>"

definition finish_options :: "PRPlugin \<Rightarrow> nat \<Rightarrow> string \<Rightarrow> string \<Rightarrow> string \<Rightarrow> UpdateCheckRunOptions" where
  "finish_options p t conclusion summary text =
     \<lparr>UpdateCheckRunOptions.Name = PRPlugin.Name p,
      UpdateCheckRunOptions.Status = None,
      UpdateCheckRunOptions.Conclusion = Some conclusion,
      UpdateCheckRunOptions.CompletedAt = Some t,
      UpdateCheckRunOptions.Output =
        Some \<lparr>CheckRunOutput.Title = Some (PRPlugin.Title p),
              CheckRunOutput.Summary = Some summary,
              CheckRunOutput.Text = Some text\<rparr>\<rparr>"

definition reset_options :: "PRPlugin \<Rightarrow> UpdateCheckRunOptions" where
  "reset_options p =
     \<lparr>UpdateCheckRunOptions.Name = PRPlugin.Name p,
      UpdateCheckRunOptions.Status = Some ''in-progress'',
      UpdateCheckRunOptions.Conclusion = None,
      UpdateCheckRunOptions.CompletedAt = None,
      UpdateCheckRunOptions.Output = None\<rparr>"

definition name_filter :: "PRPlugin \<Rightarrow> ListCheckRunsOptions" where
  "name_filter p = \<lparr>CheckName = Some (PRPlugin.Name p)\<rparr>"

section \<open>Example inputs\<close>

text \<open>
  A classifier for the examples: it knows the textual prefixes \<^verbatim>\<open>:sparkles:\<close> and
  \<^verbatim>\<open>:bug:\<close>, and any other title is uncategorized.
\<close>

definition example_notes :: notes_common where
  "example_notes =
     \<lparr>PRTypeFromTitle =
        (\<lambda>t. if take 11 t = '':sparkles: '' then (FeaturePR, drop 11 t)
             else if take 6 t = '':bug: '' then (BugfixPR, drop 6 t)
             else (UncategorizedPR, t)),
      Emoji = (\<lambda>ty. if ty = FeaturePR then [CHR 0xE2, CHR 0x9C, CHR 0xA8]
                     else if ty = BugfixPR then [CHR 0xF0, CHR 0x9F, CHR 0x90, CHR 0x9B] else []),
      PRType_String = (\<lambda>ty. if ty = FeaturePR then ''feature''
                             else if ty = BugfixPR then ''bugfix'' else ''uncategorized'')\<rparr>"

definition title_plugin :: PRPlugin where
  "title_plugin =
     \<lparr>ProcessPR = verifyPRType example_notes (\<lambda>s. s),
      PRPlugin.Name = ''PR Type'',
      PRPlugin.Title = ''PR Type in Title''\<rparr>"

text \<open>A verification function that fails with a plain error and still returns a text.\<close>

definition plain_failure_plugin :: PRPlugin where
  "plain_failure_plugin =
     \<lparr>ProcessPR = (\<lambda>pr. (''details'', Some (GoError ''boom'' [] None))),
      PRPlugin.Name = ''PR Type'',
      PRPlugin.Title = ''PR Type in Title''\<rparr>"

text \<open>A verification function whose error is wrapped around one that has \<^verbatim>\<open>Help\<close>.\<close>

definition help_failure_plugin :: PRPlugin where
  "help_failure_plugin =
     \<lparr>ProcessPR = (\<lambda>pr. (''details'',
        Some (Errorf_w ''checking: '' (GoError ''boom'' [(''Help'', ''try this'')] None)))),
      PRPlugin.Name = ''PR Type'',
      PRPlugin.Title = ''PR Type in Title''\<rparr>"

definition example_pr :: "string \<Rightarrow> string \<Rightarrow> PullRequest" where
  "example_pr t sha = \<lparr>PullRequest.Title = Some t, Head = Some \<lparr>SHA = Some sha\<rparr>\<rparr>"

definition example_env :: "string \<Rightarrow> string \<Rightarrow> ActionsEnv" where
  "example_env action t =
     \<lparr>Owner = ''o'', Repo = ''r'',
      Event = \<lparr>Action = Some action, PullRequest = Some (example_pr t ''new''),
               Before = Some ''old'', After = Some ''new''\<rparr>\<rparr>"

definition example_run :: "int \<Rightarrow> string \<Rightarrow> string \<Rightarrow> string option \<Rightarrow> CheckRunOutput option \<Rightarrow> CheckRun" where
  "example_run i sha st conclusion out =
     \<lparr>CheckRun.ID = Some i, CheckRun.Name = Some ''PR Type'', CheckRun.HeadSHA = Some sha,
      CheckRun.DetailsURL = None, CheckRun.ExternalID = None, CheckRun.Status = Some st,
      CheckRun.Conclusion = conclusion, CheckRun.StartedAt = None, CheckRun.CompletedAt = None,
      CheckRun.Output = out\<rparr>"

definition example_output :: "string \<Rightarrow> CheckRunOutput" where
  "example_output s =
     \<lparr>CheckRunOutput.Title = Some ''PR Type in Title'', Summary = Some s, Text = Some []\<rparr>"

definition example_world :: "CheckRun list \<Rightarrow> go_error option list \<Rightarrow> world" where
  "example_world rs sc =
     \<lparr>runs = map (\<lambda>r. (''o'', ''r'', r)) rs, next_id = 100, now = 7, script = sc, trace = []\<rparr>"

section \<open>Properties\<close>

subsection \<open>The remote calls\<close>

lemma after_call_fields:
  "runs (after_call c w) = runs w"
  "trace (after_call c w) = trace w @ [c]"
  "next_id (after_call c w) = next_id w"
  "now (after_call c w) = now w"
  "script (after_call c w) = tl (script w)"
  by (simp_all add: after_call_def next_response_def record_call_def split: list.split)

lemma next_response_ok:
  "call_succeeds w \<Longrightarrow> next_response (record_call c w) = (None, after_call c w)"
  by (simp add: call_succeeds_def after_call_def next_response_def record_call_def split: list.splits)

lemma next_response_fail:
  "script w = Some e # rest \<Longrightarrow> next_response (record_call c w) = (Some e, after_call c w)"
  by (simp add: after_call_def next_response_def record_call_def)

lemma not_call_succeeds:
  "\<not> call_succeeds w \<Longrightarrow> \<exists>e rest. script w = Some e # rest"
  by (auto simp: call_succeeds_def split: list.splits)

lemma CreateCheckRun_ok:
  "call_succeeds w \<Longrightarrow>
   CreateCheckRun owner repo opts w =
     ((Some (created_run (next_id w) opts), None),
      (after_call (CreateCheckRun_call owner repo opts) w)
        \<lparr>runs := runs w @ [(owner, repo, created_run (next_id w) opts)], next_id := next_id w + 1\<rparr>)"
  by (simp add: CreateCheckRun_def next_response_ok after_call_fields Let_def)

lemma CreateCheckRun_fail:
  "script w = Some e # rest \<Longrightarrow>
   CreateCheckRun owner repo opts w = ((None, Some e), after_call (CreateCheckRun_call owner repo opts) w)"
  by (simp add: CreateCheckRun_def next_response_fail)

lemma ListCheckRunsForRef_ok:
  "call_succeeds w \<Longrightarrow>
   ListCheckRunsForRef owner repo ref opts w =
     ((Some \<lparr>Total = Some (int (length (matching_runs owner repo ref opts w))),
             CheckRuns = matching_runs owner repo ref opts w\<rparr>, None),
      after_call (ListCheckRunsForRef_call owner repo ref opts) w)"
  by (simp add: ListCheckRunsForRef_def next_response_ok after_call_fields Let_def matching_runs_def)

lemma ListCheckRunsForRef_fail:
  "script w = Some e # rest \<Longrightarrow>
   ListCheckRunsForRef owner repo ref opts w =
     ((None, Some e), after_call (ListCheckRunsForRef_call owner repo ref opts) w)"
  by (simp add: ListCheckRunsForRef_def next_response_fail)

lemma UpdateCheckRun_fail:
  "script w = Some e # rest \<Longrightarrow>
   UpdateCheckRun owner repo i opts w = ((None, Some e), after_call (UpdateCheckRun_call owner repo i opts) w)"
  by (simp add: UpdateCheckRun_def next_response_fail)

lemma UpdateCheckRun_trace:
  "trace (snd (UpdateCheckRun owner repo i opts w)) = trace w @ [UpdateCheckRun_call owner repo i opts]"
  by (cases "call_succeeds w")
     (auto simp: UpdateCheckRun_def next_response_ok after_call_fields next_response_fail
           dest!: not_call_succeeds split: list.splits)

lemma UpdateCheckRun_keys:
  "map run_key (runs (snd (UpdateCheckRun owner repo i opts w))) = map run_key (runs w)"
proof -
  have k: "run_key \<circ> (\<lambda>(ow, rp, r). if is_run owner repo i (ow, rp, r)
                 then (ow, rp, updated_run opts r) else (ow, rp, r)) = run_key"
    by (auto simp: run_key_def updated_run_def fun_eq_iff)
  show ?thesis
    by (cases "call_succeeds w")
       (auto simp: UpdateCheckRun_def next_response_ok after_call_fields next_response_fail k
             dest!: not_call_succeeds split: list.splits)
qed

lemma CreateCheckRun_trace:
  "trace (snd (CreateCheckRun owner repo opts w)) = trace w @ [CreateCheckRun_call owner repo opts]"
  by (cases "call_succeeds w")
     (auto simp: CreateCheckRun_ok CreateCheckRun_fail after_call_fields dest!: not_call_succeeds)

lemma UpdateCheckRun_ok:
  "call_succeeds w \<Longrightarrow> filter (is_run owner repo i) (runs w) = (ow, rp, c) # rest \<Longrightarrow>
   UpdateCheckRun owner repo i opts w =
     ((Some (updated_run opts c), None),
      (after_call (UpdateCheckRun_call owner repo i opts) w)
        \<lparr>runs := map (\<lambda>(ow, rp, r). if is_run owner repo i (ow, rp, r)
                             then (ow, rp, updated_run opts r) else (ow, rp, r)) (runs w)\<rparr>)"
  by (simp add: UpdateCheckRun_def next_response_ok after_call_fields)

lemma UpdateCheckRun_Some:
  assumes "fst (UpdateCheckRun owner repo i opts w) = (Some c2, err)"
  shows "err = None \<and> (\<exists>c. c2 = updated_run opts c) \<and>
         (owner, repo, c2) \<in> set (runs (snd (UpdateCheckRun owner repo i opts w)))"
proof (cases "call_succeeds w")
  case False
  then obtain e rest where "script w = Some e # rest" by (auto dest: not_call_succeeds)
  with assms show ?thesis by (simp add: UpdateCheckRun_fail)
next
  case True
  show ?thesis
  proof (cases "filter (is_run owner repo i) (runs w)")
    case Nil
    with True assms show ?thesis
      by (simp add: UpdateCheckRun_def next_response_ok after_call_fields)
  next
    case (Cons x rest)
    obtain ow rp c where x: "x = (ow, rp, c)" by (cases x)
    from Cons x have m: "(ow, rp, c) \<in> set (filter (is_run owner repo i) (runs w))" by simp
    then have in_runs: "(ow, rp, c) \<in> set (runs w)" and ir: "is_run owner repo i (ow, rp, c)"
      by simp_all
    from ir have eq: "ow = owner" "rp = repo" by (simp_all add: is_run_def)
    from UpdateCheckRun_ok [OF True, of owner repo i ow rp c rest opts] Cons x assms
    have c2: "c2 = updated_run opts c" and e: "err = None"
      and rs: "runs (snd (UpdateCheckRun owner repo i opts w)) =
        map (\<lambda>(ow, rp, r). if is_run owner repo i (ow, rp, r)
               then (ow, rp, updated_run opts r) else (ow, rp, r)) (runs w)"
      by simp_all
    from in_runs ir have "(ow, rp, updated_run opts c) \<in>
        set (map (\<lambda>(ow, rp, r). if is_run owner repo i (ow, rp, r)
               then (ow, rp, updated_run opts r) else (ow, rp, r)) (runs w))"
      by (force simp: image_iff)
    with c2 e rs eq show ?thesis by auto
  qed
qed

lemma UpdateCheckRun_member:
  assumes ok: "call_succeeds w" and m: "(owner, repo, c) \<in> set (runs w)" and i: "CheckRun.ID c = Some i"
  shows "snd (fst (UpdateCheckRun owner repo i opts w)) = None \<and>
         (owner, repo, updated_run opts c) \<in> set (runs (snd (UpdateCheckRun owner repo i opts w)))"
proof -
  from m i have "(owner, repo, c) \<in> set (filter (is_run owner repo i) (runs w))"
    by (simp add: is_run_def)
  then obtain x rest where f: "filter (is_run owner repo i) (runs w) = x # rest"
    by (cases "filter (is_run owner repo i) (runs w)") auto
  obtain ow rp c' where x: "x = (ow, rp, c')" by (cases x)
  from m i have "(owner, repo, updated_run opts c) \<in>
        set (map (\<lambda>(ow, rp, r). if is_run owner repo i (ow, rp, r)
               then (ow, rp, updated_run opts r) else (ow, rp, r)) (runs w))"
    by (force simp: image_iff is_run_def)
  with UpdateCheckRun_ok [OF ok, of owner repo i ow rp c' rest opts] f x
  show ?thesis by simp
qed

lemma CreateCheckRun_now: "now (snd (CreateCheckRun owner repo opts w)) = now w"
  by (cases "call_succeeds w")
     (auto simp: CreateCheckRun_ok CreateCheckRun_fail after_call_fields dest!: not_call_succeeds)

lemma UpdateCheckRun_now: "now (snd (UpdateCheckRun owner repo i opts w)) = now w"
  by (cases "call_succeeds w")
     (auto simp: UpdateCheckRun_def next_response_ok after_call_fields next_response_fail
           dest!: not_call_succeeds split: list.splits)

subsection \<open>Worlds reached by remote calls only\<close>

lemma new_calls_append: "trace w' = trace w @ cs \<Longrightarrow> new_calls w w' = cs"
  by (simp add: new_calls_def)

lemma only_remote_callsI:
  "now w' = now w \<Longrightarrow> trace w' = trace w @ cs \<Longrightarrow> \<not> list_ex is_ProcessPR_call cs \<Longrightarrow>
   only_remote_calls w w'"
  by (simp add: only_remote_calls_def new_calls_def)

lemma only_remote_callsD:
  assumes "only_remote_calls w w'"
  shows "now w' = now w" and "trace w' = trace w @ new_calls w w'"
    and "\<not> list_ex is_ProcessPR_call (new_calls w w')"
proof -
  from assms have t: "take (length (trace w)) (trace w') = trace w"
    by (simp add: only_remote_calls_def)
  have "trace w' = take (length (trace w)) (trace w') @ drop (length (trace w)) (trace w')"
    by simp
  with t show "trace w' = trace w @ new_calls w w'"
    by (simp add: new_calls_def)
  from assms show "now w' = now w" "\<not> list_ex is_ProcessPR_call (new_calls w w')"
    by (simp_all add: only_remote_calls_def)
qed

lemma only_remote_calls_refl: "only_remote_calls w w"
  by (simp add: only_remote_calls_def new_calls_def)

lemma only_remote_calls_trans:
  assumes "only_remote_calls w w1" "only_remote_calls w1 w2"
  shows "only_remote_calls w w2"
proof (rule only_remote_callsI)
  from assms show "now w2 = now w"
    by (simp add: only_remote_callsD(1))
  from only_remote_callsD(2) [OF assms(1)] only_remote_callsD(2) [OF assms(2)]
  show "trace w2 = trace w @ (new_calls w w1 @ new_calls w1 w2)" by simp
  from only_remote_callsD(3) [OF assms(1)] only_remote_callsD(3) [OF assms(2)]
  show "\<not> list_ex is_ProcessPR_call (new_calls w w1 @ new_calls w1 w2)" by simp
qed

lemma CreateCheckRun_remote: "only_remote_calls w (snd (CreateCheckRun owner repo opts w))"
  by (rule only_remote_callsI [OF CreateCheckRun_now CreateCheckRun_trace]) simp

lemma UpdateCheckRun_remote: "only_remote_calls w (snd (UpdateCheckRun owner repo i opts w))"
  by (rule only_remote_callsI [OF UpdateCheckRun_now UpdateCheckRun_trace]) simp

lemma after_call_remote: "\<not> is_ProcessPR_call c \<Longrightarrow> only_remote_calls w (after_call c w)"
  by (rule only_remote_callsI [where cs = "[c]"]) (simp_all add: after_call_fields)

subsection \<open>Unfolding the definitions on concrete inputs\<close>

lemmas example_defs =
  example_world_def example_run_def example_output_def example_env_def example_pr_def
  title_plugin_def plain_failure_plugin_def help_failure_plugin_def

lemmas getter_defs =
  GetID_def GetStatus_def GetTitle_def GetHead_def GetSHA_def GetAction_def GetPullRequest_def
  GetBefore_def GetAfter_def

lemmas remote_defs =
  record_call_def next_response_def created_run_def CreateCheckRun_def matching_runs_def
  ListCheckRunsForRef_def updated_run_def is_run_def UpdateCheckRun_def

lemmas plugin_defs =
  Started_def Finished_def Equal_def StringP_def processPR_def createCheckRun_def getCheckRun_def
  resetCheckRun_def finishCheckRun_def duplicateCheckRun_def processAndSubmit_def
  report_failure_def onOpen_def onReopen_def onEdit_def onSync_duplicate_def onSync_def
  entrypoint_def Errorf_v_def Errorf_w_def implements_ErrorWithHelp_def Help_def

lemmas type_defs =
  plain_ascii_def fmt_sharp_q_def prTitleTypeError_Error_def prTitleTypeError_Details_def
  prTitleTypeError_as_error_def verifyPRType_def

lemmas spec_defs =
  call_succeeds_def after_call_def new_calls_def create_options_def finish_options_def
  reset_options_def name_filter_def

lemmas eval_defs =
  example_defs example_notes_def getter_defs remote_defs plugin_defs type_defs spec_defs Let_def

subsection \<open>The verification runner\<close>

lemma errors_As_implements:
  "errors_As_ErrorWithHelp e = Some h \<Longrightarrow> implements_ErrorWithHelp h"
  by (induction e rule: errors_As_ErrorWithHelp.induct) (auto split: if_splits option.splits)

lemma processPR_snd: "snd (processPR p pr w) = record_call (ProcessPR_call pr) w"
  by (simp add: processPR_def Let_def split: prod.splits option.splits)

lemma processPR_fst_failure:
  "ProcessPR p pr = (detail, Some e) \<Longrightarrow>
   fst (processPR p pr w) =
     (''failure'', Error e,
      (case errors_As_ErrorWithHelp e of Some helpErr \<Rightarrow> Help helpErr | None \<Rightarrow> detail), Some e)"
  by (simp add: processPR_def)

lemma processPR_fst_success:
  "ProcessPR p pr = (detail, None) \<Longrightarrow>
   fst (processPR p pr w) = (''success'', ''Success'', detail, None)"
  by (simp add: processPR_def)

lemma processPR_fst_indep: "fst (processPR p pr w) = fst (processPR p pr w')"
  by (cases "ProcessPR p pr") (simp add: processPR_def Let_def split: option.splits)

text \<open>
  C1 (as amended). When the verification function returns \<open>(detail, nil)\<close>, \<open>processPR\<close>
  returns the conclusion "success", the summary "Success" and the text \<open>detail\<close>. When it
  returns \<open>(detail, err)\<close> with a non-nil \<open>err\<close> in whose chain nothing has the help
  capability, \<open>processPR\<close> returns the conclusion "failure", the summary \<open>err.Error()\<close>
  and, as text, the \<open>detail\<close> that the verification function returned beside the error:
  the text is never set from the error's message.
\<close>

theorem processPR_outcome:
  "(ProcessPR p pr = (detail, None) \<longrightarrow>
      fst (processPR p pr w) = (''success'', ''Success'', detail, None)) \<and>
   (ProcessPR p pr = (detail, Some err) \<and> errors_As_ErrorWithHelp err = None \<longrightarrow>
      fst (processPR p pr w) = (''failure'', Error err, detail, Some err))"
  by (simp add: processPR_def)

theorem processPR_outcome_witness:
  "ProcessPR title_plugin (Some (example_pr '':bug: Fix it'' ''new'')) =
     (''Found '' @ [CHR 0xF0, CHR 0x9F, CHR 0x90, CHR 0x9B] @ '' PR (bugfix) with final title:''
        @ [CHR 0x0A, CHR 0x0A, CHR 0x09] @ ''Fix it'' @ [CHR 0x0A], None) \<and>
   fst (processPR title_plugin (Some (example_pr '':bug: Fix it'' ''new'')) (example_world [] [])) =
     (''success'', ''Success'',
      ''Found '' @ [CHR 0xF0, CHR 0x9F, CHR 0x90, CHR 0x9B] @ '' PR (bugfix) with final title:''
        @ [CHR 0x0A, CHR 0x0A, CHR 0x09] @ ''Fix it'' @ [CHR 0x0A], None) \<and>
   ProcessPR plain_failure_plugin None = (''details'', Some (GoError ''boom'' [] None)) \<and>
   errors_As_ErrorWithHelp (GoError ''boom'' [] None) = None \<and>
   fst (processPR plain_failure_plugin None (example_world [] [])) =
     (''failure'', ''boom'', ''details'', Some (GoError ''boom'' [] None))"
proof -
  have a: "ProcessPR title_plugin (Some (example_pr '':bug: Fix it'' ''new'')) =
     (''Found '' @ [CHR 0xF0, CHR 0x9F, CHR 0x90, CHR 0x9B] @ '' PR (bugfix) with final title:''
        @ [CHR 0x0A, CHR 0x0A, CHR 0x09] @ ''Fix it'' @ [CHR 0x0A], None)"
    by (simp add: title_plugin_def verifyPRType_def example_notes_def example_pr_def GetTitle_def)
  have b: "ProcessPR plain_failure_plugin None = (''details'', Some (GoError ''boom'' [] None))"
    by (simp add: plain_failure_plugin_def)
  have c: "errors_As_ErrorWithHelp (GoError ''boom'' [] None) = None"
    by (simp add: implements_ErrorWithHelp_def)
  from processPR_outcome [where p = title_plugin and pr = "Some (example_pr '':bug: Fix it'' ''new'')"
         and w = "example_world [] []"]
       processPR_outcome [where p = plain_failure_plugin and pr = None and detail = "''details''"
         and err = "GoError ''boom'' [] None" and w = "example_world [] []"]
       a b c
  show ?thesis by simp
qed

text \<open>
  C1 as it was stated fails: a verification function that returns the text "details"
  beside a plain error "boom" gets the text "details", not the error's message.
\<close>

theorem processPR_plain_error_counterexample:
  "ProcessPR plain_failure_plugin None = (''details'', Some (GoError ''boom'' [] None)) \<and>
   errors_As_ErrorWithHelp (GoError ''boom'' [] None) = None \<and>
   fst (snd (snd (fst (processPR plain_failure_plugin None (example_world [] []))))) = ''details'' \<and>
   fst (snd (snd (fst (processPR plain_failure_plugin None (example_world [] []))))) \<noteq>
     Error (GoError ''boom'' [] None)"
  by (simp add: processPR_def plain_failure_plugin_def implements_ErrorWithHelp_def)

text \<open>
  C6. When the verification function returns \<open>(_, err)\<close> and \<open>err\<close> exposes the help
  capability (\<^verbatim>\<open>errors.As\<close> finds an \<^verbatim>\<open>ErrorWithHelp\<close> in its chain) with help text \<open>H\<close>,
  \<open>processPR\<close> returns the text \<open>H\<close>, while the summary is \<open>err.Error()\<close> and the
  conclusion is "failure".
\<close>

theorem processPR_help:
  "ProcessPR p pr = (detail, Some err) \<Longrightarrow> errors_As_ErrorWithHelp err = Some helpErr \<Longrightarrow>
   map_of (methods helpErr) ''Help'' = Some H \<Longrightarrow>
   fst (processPR p pr w) = (''failure'', Error err, H, Some err)"
  by (simp add: processPR_def Help_def)

theorem processPR_help_witness:
  "fst (processPR help_failure_plugin None (example_world [] [])) =
     (''failure'', ''checking: boom'', ''try this'',
      Some (Errorf_w ''checking: '' (GoError ''boom'' [(''Help'', ''try this'')] None)))"
proof -
  have a: "ProcessPR help_failure_plugin None =
      (''details'', Some (Errorf_w ''checking: '' (GoError ''boom'' [(''Help'', ''try this'')] None)))"
    by (simp add: help_failure_plugin_def)
  have b: "errors_As_ErrorWithHelp (Errorf_w ''checking: '' (GoError ''boom'' [(''Help'', ''try this'')] None))
      = Some (GoError ''boom'' [(''Help'', ''try this'')] None)"
    by (simp add: Errorf_w_def implements_ErrorWithHelp_def)
  have c: "map_of (methods (GoError ''boom'' [(''Help'', ''try this'')] None)) ''Help'' = Some ''try this''"
    by simp
  from processPR_help [OF a b c, of "example_world [] []"]
  show ?thesis by (simp add: Errorf_w_def)
qed

subsection \<open>The check-run store\<close>

lemma createCheckRun_eq:
  "createCheckRun p owner repo headSHA w =
     (case CreateCheckRun owner repo (create_options p headSHA) w of
        ((checkRun, Some e), w1) \<Rightarrow> ((None, Some (Errorf_w ''unable to create check run: '' e)), w1)
      | ((checkRun, None), w1) \<Rightarrow> ((checkRun, None), w1))"
  by (simp add: createCheckRun_def create_options_def StringP_def split: prod.splits option.splits)

lemma createCheckRun_ok:
  "call_succeeds w \<Longrightarrow>
   createCheckRun p owner repo headSHA w =
     ((Some (created_run (next_id w) (create_options p headSHA)), None),
      (after_call (CreateCheckRun_call owner repo (create_options p headSHA)) w)
        \<lparr>runs := runs w @ [(owner, repo, created_run (next_id w) (create_options p headSHA))],
         next_id := next_id w + 1\<rparr>)"
  by (simp add: createCheckRun_eq CreateCheckRun_ok)

lemma createCheckRun_fail:
  "script w = Some e # rest \<Longrightarrow>
   createCheckRun p owner repo headSHA w =
     ((None, Some (Errorf_w ''unable to create check run: '' e)),
      after_call (CreateCheckRun_call owner repo (create_options p headSHA)) w)"
  by (simp add: createCheckRun_eq CreateCheckRun_fail)

lemma getCheckRun_ok:
  assumes "call_succeeds w"
  shows "getCheckRun p owner repo headSHA w =
     (let ms = matching_runs owner repo headSHA (name_filter p) w;
          w1 = after_call (ListCheckRunsForRef_call owner repo headSHA (name_filter p)) w
      in case ms of
           [] \<Rightarrow> (Return (fst (createCheckRun p owner repo headSHA w1)),
                  snd (createCheckRun p owner repo headSHA w1))
         | [r] \<Rightarrow> (Return (Some r, None), w1)
         | r # r' # rs \<Rightarrow>
             (Return (None, Some (GoError
                (''multiple instances of '' @ [CHR 0x60] @ PRPlugin.Name p @ [CHR 0x60]
                   @ '' check run found on '' @ owner @ ''/'' @ repo @ '' @ '' @ headSHA) [] None)), w1))"
  using assms
  by (simp add: getCheckRun_def name_filter_def [symmetric] ListCheckRunsForRef_ok Let_def
           split: list.splits prod.splits)

lemma getCheckRun_fail:
  "script w = Some e # rest \<Longrightarrow>
   getCheckRun p owner repo headSHA w =
     (Return (None, Some (Errorf_w ''unable to list check runs: '' e)),
      after_call (ListCheckRunsForRef_call owner repo headSHA (name_filter p)) w)"
  by (simp add: getCheckRun_def name_filter_def [symmetric] ListCheckRunsForRef_fail)

lemma GetStatus_completed:
  "Equal Finished (GetStatus (Some c)) \<longleftrightarrow> CheckRun.Status c = Some ''completed''"
  by (auto simp: Equal_def Finished_def GetStatus_def split: option.splits)

lemma getCheckRun_completed:
  assumes g: "getCheckRun p owner repo headSHA w = (Return (Some c, None), w1)"
    and st: "CheckRun.Status c = Some ''completed''"
  shows "w1 = after_call (ListCheckRunsForRef_call owner repo headSHA (name_filter p)) w"
proof (cases "call_succeeds w")
  case False
  then obtain e rest where "script w = Some e # rest" by (auto dest: not_call_succeeds)
  with g show ?thesis by (simp add: getCheckRun_fail)
next
  case True
  let ?w1 = "after_call (ListCheckRunsForRef_call owner repo headSHA (name_filter p)) w"
  show ?thesis
  proof (cases "matching_runs owner repo headSHA (name_filter p) w")
    case Nil
    show ?thesis
    proof (cases "call_succeeds ?w1")
      case ok: True
      from g True Nil createCheckRun_ok [OF ok, of p owner repo headSHA]
      have "c = created_run (next_id ?w1) (create_options p headSHA)"
        by (simp add: getCheckRun_ok Let_def)
      with st show ?thesis
        by (simp add: created_run_def create_options_def Started_def)
    next
      case False
      then obtain e rest where "script ?w1 = Some e # rest" by (auto dest: not_call_succeeds)
      from g True Nil createCheckRun_fail [OF this, of p owner repo headSHA]
      show ?thesis by (simp add: getCheckRun_ok Let_def)
    qed
  next
    case (Cons r rs)
    with g True show ?thesis
      by (cases rs) (simp_all add: getCheckRun_ok Let_def)
  qed
qed

lemma createCheckRun_remote: "only_remote_calls w (snd (createCheckRun p owner repo headSHA w))"
proof -
  have "snd (createCheckRun p owner repo headSHA w) =
        snd (CreateCheckRun owner repo (create_options p headSHA) w)"
    by (simp add: createCheckRun_eq split: prod.splits option.splits)
  then show ?thesis by (simp add: CreateCheckRun_remote)
qed

lemma getCheckRun_remote: "only_remote_calls w (snd (getCheckRun p owner repo headSHA w))"
proof (cases "call_succeeds w")
  case True
  let ?w1 = "after_call (ListCheckRunsForRef_call owner repo headSHA (name_filter p)) w"
  have 1: "only_remote_calls w ?w1" by (simp add: after_call_remote)
  have 2: "only_remote_calls w (snd (createCheckRun p owner repo headSHA ?w1))"
    by (rule only_remote_calls_trans [OF 1 createCheckRun_remote])
  from True 1 2 show ?thesis
    by (simp add: getCheckRun_ok Let_def split: list.splits)
next
  case False
  then obtain e rest where "script w = Some e # rest"
    by (auto dest: not_call_succeeds)
  then show ?thesis
    by (simp add: getCheckRun_fail after_call_remote)
qed

lemma resetCheckRun_remote: "only_remote_calls w (snd (resetCheckRun p owner repo headSHA w))"
proof (cases "getCheckRun p owner repo headSHA w")
  case (Pair res w1)
  with getCheckRun_remote [of w p owner repo headSHA] have 1: "only_remote_calls w w1" by simp
  show ?thesis
  proof (cases res)
    case Panic
    with Pair 1 show ?thesis by (simp add: resetCheckRun_def)
  next
    case (Return x)
    obtain c err where x: "x = (c, err)" by (cases x)
    have 2: "only_remote_calls w (snd (UpdateCheckRun owner repo (GetID c) (reset_options p) w1))"
      by (rule only_remote_calls_trans [OF 1 UpdateCheckRun_remote])
    from Pair Return x 1 2 show ?thesis
      by (auto simp: resetCheckRun_def reset_options_def [symmetric] split: prod.splits option.splits)
  qed
qed

lemma duplicateCheckRun_remote:
  "only_remote_calls w (snd (duplicateCheckRun p owner repo headSHA c w))"
proof (cases c)
  case None
  then show ?thesis by (simp add: duplicateCheckRun_def only_remote_calls_refl)
next
  case (Some r)
  then show ?thesis
    using CreateCheckRun_remote
    by (simp add: duplicateCheckRun_def split: prod.splits option.splits)
       (metis snd_conv)
qed

lemma onSync_duplicate_remote: "only_remote_calls w (snd (onSync_duplicate p env c w))"
  using duplicateCheckRun_remote [of w p "Owner env" "Repo env" "GetAfter (Event env)" c]
  by (auto simp: onSync_duplicate_def split: prod.splits result.splits option.splits)

lemma example_world_succeeds:
  "call_succeeds (example_world rs [])" "call_succeeds (example_world rs (None # sc))"
  "call_succeeds (after_call c (example_world rs []))"
  by (simp_all add: call_succeeds_def example_world_def after_call_fields)

lemma getCheckRun_example:
  assumes "call_succeeds (example_world [example_run 1 sha st concl out] sc)"
  shows "getCheckRun title_plugin ''o'' ''r'' sha (example_world [example_run 1 sha st concl out] sc) =
     (Return (Some (example_run 1 sha st concl out), None),
      after_call (ListCheckRunsForRef_call ''o'' ''r'' sha (name_filter title_plugin))
        (example_world [example_run 1 sha st concl out] sc))"
  using assms
  by (simp add: getCheckRun_ok matching_runs_def name_filter_def title_plugin_def example_world_def
        example_run_def)

lemma getCheckRun_example_ok:
  "getCheckRun title_plugin ''o'' ''r'' sha (example_world [example_run 1 sha st concl out] []) =
     (Return (Some (example_run 1 sha st concl out), None),
      after_call (ListCheckRunsForRef_call ''o'' ''r'' sha (name_filter title_plugin))
        (example_world [example_run 1 sha st concl out] []))"
  by (rule getCheckRun_example [OF example_world_succeeds(1)])

lemma getCheckRun_example_ok_then:
  "getCheckRun title_plugin ''o'' ''r'' sha (example_world [example_run 1 sha st concl out] (None # sc)) =
     (Return (Some (example_run 1 sha st concl out), None),
      after_call (ListCheckRunsForRef_call ''o'' ''r'' sha (name_filter title_plugin))
        (example_world [example_run 1 sha st concl out] (None # sc)))"
  by (rule getCheckRun_example [OF example_world_succeeds(2)])

text \<open>
  C3. \<open>getCheckRun\<close> lists the runs that match the plugin's name and the commit. With no
  match it delegates to \<open>createCheckRun\<close> and returns what that returns, the newly created
  run when the creation succeeds; with exactly one match it returns that run and makes
  no other call; with two or more matches it returns an error ("multiple instances ...")
  and no run, makes no other call and leaves the store as it was.
\<close>

theorem getCheckRun_policy:
  assumes "call_succeeds w"
  shows
   "let ms = matching_runs owner repo headSHA (name_filter p) w;
        w1 = after_call (ListCheckRunsForRef_call owner repo headSHA (name_filter p)) w;
        new = created_run (next_id w) (create_options p headSHA);
        res = fst (getCheckRun p owner repo headSHA w);
        w' = snd (getCheckRun p owner repo headSHA w)
    in (ms = [] \<longrightarrow>
          res = Return (fst (createCheckRun p owner repo headSHA w1)) \<and>
          w' = snd (createCheckRun p owner repo headSHA w1) \<and>
          (call_succeeds w1 \<longrightarrow>
             res = Return (Some new, None) \<and> runs w' = runs w @ [(owner, repo, new)] \<and>
             CheckRun.Name new = Some (PRPlugin.Name p) \<and> CheckRun.HeadSHA new = Some headSHA \<and>
             new_calls w w' =
               [ListCheckRunsForRef_call owner repo headSHA (name_filter p),
                CreateCheckRun_call owner repo (create_options p headSHA)])) \<and>
       (\<forall>r. ms = [r] \<longrightarrow>
          res = Return (Some r, None) \<and> runs w' = runs w \<and>
          new_calls w w' = [ListCheckRunsForRef_call owner repo headSHA (name_filter p)]) \<and>
       (2 \<le> length ms \<longrightarrow>
          res = Return (None, Some (GoError
                  (''multiple instances of '' @ [CHR 0x60] @ PRPlugin.Name p @ [CHR 0x60]
                     @ '' check run found on '' @ owner @ ''/'' @ repo @ '' @ '' @ headSHA) [] None)) \<and>
          runs w' = runs w \<and>
          new_calls w w' = [ListCheckRunsForRef_call owner repo headSHA (name_filter p)])"
  using assms
  by (auto simp: getCheckRun_ok Let_def createCheckRun_ok after_call_fields new_calls_def
                 created_run_def create_options_def
           split: list.splits)

theorem getCheckRun_policy_witness:
  "call_succeeds (example_world [] []) \<and>
   fst (getCheckRun title_plugin ''o'' ''r'' ''new'' (example_world [] [])) =
     Return (Some (example_run 100 ''new'' ''in-progress'' None None), None) \<and>
   runs (snd (getCheckRun title_plugin ''o'' ''r'' ''new'' (example_world [] []))) =
     [(''o'', ''r'', example_run 100 ''new'' ''in-progress'' None None)] \<and>
   fst (getCheckRun title_plugin ''o'' ''r'' ''new''
          (example_world [example_run 1 ''old'' ''completed'' (Some ''success'') None,
                          example_run 2 ''new'' ''queued'' None None] [])) =
     Return (Some (example_run 2 ''new'' ''queued'' None None), None) \<and>
   runs (snd (getCheckRun title_plugin ''o'' ''r'' ''new''
          (example_world [example_run 1 ''old'' ''completed'' (Some ''success'') None,
                          example_run 2 ''new'' ''queued'' None None] []))) =
     runs (example_world [example_run 1 ''old'' ''completed'' (Some ''success'') None,
                          example_run 2 ''new'' ''queued'' None None] []) \<and>
   fst (getCheckRun title_plugin ''o'' ''r'' ''new''
          (example_world [example_run 1 ''new'' ''completed'' (Some ''success'') None,
                          example_run 2 ''new'' ''queued'' None None] [])) =
     Return (None, Some (GoError (''multiple instances of '' @ [CHR 0x60] @ ''PR Type'' @ [CHR 0x60]
               @ '' check run found on o/r @ new'') [] None)) \<and>
   new_calls (example_world [example_run 1 ''new'' ''completed'' (Some ''success'') None,
                          example_run 2 ''new'' ''queued'' None None] [])
     (snd (getCheckRun title_plugin ''o'' ''r'' ''new''
          (example_world [example_run 1 ''new'' ''completed'' (Some ''success'') None,
                          example_run 2 ''new'' ''queued'' None None] []))) =
     [ListCheckRunsForRef_call ''o'' ''r'' ''new'' \<lparr>CheckName = Some ''PR Type''\<rparr>]"
proof -
  have ok: "\<And>rs. call_succeeds (example_world rs [])"
    by (simp add: call_succeeds_def example_world_def)
  have ok1: "\<And>rs c. call_succeeds (after_call c (example_world rs []))"
    by (simp add: call_succeeds_def example_world_def after_call_fields)
  note a = getCheckRun_policy [OF ok, of "''o''" "''r''" "''new''" title_plugin "[]"]
  note b = getCheckRun_policy [OF ok, of "''o''" "''r''" "''new''" title_plugin
             "[example_run 1 ''old'' ''completed'' (Some ''success'') None,
               example_run 2 ''new'' ''queued'' None None]"]
  note c = getCheckRun_policy [OF ok, of "''o''" "''r''" "''new''" title_plugin
             "[example_run 1 ''new'' ''completed'' (Some ''success'') None,
               example_run 2 ''new'' ''queued'' None None]"]
  have ma: "matching_runs ''o'' ''r'' ''new'' \<lparr>CheckName = Some ''PR Type''\<rparr> (example_world [] []) = []"
    by (simp add: matching_runs_def example_world_def)
  have mb: "matching_runs ''o'' ''r'' ''new'' \<lparr>CheckName = Some ''PR Type''\<rparr>
       (example_world [example_run 1 ''old'' ''completed'' (Some ''success'') None,
               example_run 2 ''new'' ''queued'' None None] []) = [example_run 2 ''new'' ''queued'' None None]"
    by (simp add: matching_runs_def example_world_def example_run_def name_filter_def title_plugin_def)
  have mc: "matching_runs ''o'' ''r'' ''new'' \<lparr>CheckName = Some ''PR Type''\<rparr>
       (example_world [example_run 1 ''new'' ''completed'' (Some ''success'') None,
               example_run 2 ''new'' ''queued'' None None] []) =
       [example_run 1 ''new'' ''completed'' (Some ''success'') None, example_run 2 ''new'' ''queued'' None None]"
    by (simp add: matching_runs_def example_world_def example_run_def name_filter_def title_plugin_def)
  have n: "created_run 100 (create_options title_plugin ''new'') = example_run 100 ''new'' ''in-progress'' None None"
    by (simp add: created_run_def create_options_def title_plugin_def example_run_def Started_def)
  have i: "next_id (example_world [] []) = 100" "runs (example_world [] []) = []"
    by (simp_all add: example_world_def)
  have nm: "name_filter title_plugin = \<lparr>CheckName = Some ''PR Type''\<rparr>" "PRPlugin.Name title_plugin = ''PR Type''"
    by (simp_all add: name_filter_def title_plugin_def)
  show ?thesis
    using a b c by (auto simp: Let_def ma mb mc ok ok1 n i nm)
qed

text \<open>
  C9 (as amended). \<open>resetCheckRun\<close> first performs \<open>getCheckRun\<close>. If that failed, or the
  run's status is already "in-progress", its results are returned as they are and no
  update call is made. Otherwise exactly one update call is made, asking for the status
  "in-progress"; when it succeeds the updated run is returned, with that status; when it
  fails, the wrapped error is returned together with the run the update call returned,
  which is \<^verbatim>\<open>nil\<close>: the previously fetched run is not returned.
\<close>

theorem resetCheckRun_behaviour:
  assumes g: "getCheckRun p owner repo headSHA w = (Return (checkRun, err), w1)"
  shows
   "(err \<noteq> None \<or> GetStatus checkRun = ''in-progress'' \<longrightarrow>
       resetCheckRun p owner repo headSHA w = (Return (checkRun, err), w1)) \<and>
    (err = None \<and> GetStatus checkRun \<noteq> ''in-progress'' \<longrightarrow>
       new_calls w1 (snd (resetCheckRun p owner repo headSHA w)) =
         [UpdateCheckRun_call owner repo (GetID checkRun) (reset_options p)] \<and>
       (\<forall>e rest. script w1 = Some e # rest \<longrightarrow>
          fst (resetCheckRun p owner repo headSHA w) =
            Return (None, Some (Errorf_w ''unable to reset check run: '' e))) \<and>
       (\<forall>c2 err2. fst (resetCheckRun p owner repo headSHA w) = Return (Some c2, err2) \<longrightarrow>
          err2 = None \<and> CheckRun.Status c2 = Some ''in-progress'' \<and>
          (owner, repo, c2) \<in> set (runs (snd (resetCheckRun p owner repo headSHA w)))))"
proof (intro conjI impI allI)
  assume "err \<noteq> None \<or> GetStatus checkRun = ''in-progress''"
  with g show "resetCheckRun p owner repo headSHA w = (Return (checkRun, err), w1)"
    by (auto simp: resetCheckRun_def Equal_def Started_def)
next
  let ?u = "UpdateCheckRun owner repo (GetID checkRun) (reset_options p) w1"
  assume a: "err = None \<and> GetStatus checkRun \<noteq> ''in-progress''"
  with g have r: "resetCheckRun p owner repo headSHA w =
      (case ?u of
         ((checkRun2, Some e), w2) \<Rightarrow>
            (Return (checkRun2, Some (Errorf_w ''unable to reset check run: '' e)), w2)
       | ((checkRun2, None), w2) \<Rightarrow> (Return (checkRun2, None), w2))"
    by (auto simp: resetCheckRun_def Equal_def Started_def reset_options_def
             split: prod.splits option.splits)
  then have s: "snd (resetCheckRun p owner repo headSHA w) = snd ?u"
    by (simp split: prod.splits option.splits)
  show "new_calls w1 (snd (resetCheckRun p owner repo headSHA w)) =
         [UpdateCheckRun_call owner repo (GetID checkRun) (reset_options p)]"
    by (simp add: s new_calls_def UpdateCheckRun_trace)
  { fix e rest
    assume "script w1 = Some e # rest"
    from UpdateCheckRun_fail [OF this] r
    show "fst (resetCheckRun p owner repo headSHA w) =
            Return (None, Some (Errorf_w ''unable to reset check run: '' e))"
      by simp }
  { fix c2 err2
    assume x: "fst (resetCheckRun p owner repo headSHA w) = Return (Some c2, err2)"
    obtain c3 err3 w3 where u: "?u = ((c3, err3), w3)" by (metis surj_pair)
    with r x have c3: "c3 = Some c2" by (simp split: option.splits)
    with u have "fst ?u = (Some c2, err3)" by simp
    from UpdateCheckRun_Some [OF this] u
    have "err3 = None" and "\<exists>c. c2 = updated_run (reset_options p) c" and "(owner, repo, c2) \<in> set (runs w3)"
      by simp_all
    with r u x c3 s
    show "err2 = None" and "CheckRun.Status c2 = Some ''in-progress''"
      and "(owner, repo, c2) \<in> set (runs (snd (resetCheckRun p owner repo headSHA w)))"
      by (auto simp: updated_run_def reset_options_def) }
qed

theorem resetCheckRun_behaviour_witness:
  "resetCheckRun title_plugin ''o'' ''r'' ''new''
      (example_world [example_run 1 ''new'' ''in-progress'' None None] []) =
     (Return (Some (example_run 1 ''new'' ''in-progress'' None None), None),
      after_call (ListCheckRunsForRef_call ''o'' ''r'' ''new'' (name_filter title_plugin))
        (example_world [example_run 1 ''new'' ''in-progress'' None None] [])) \<and>
   resetCheckRun title_plugin ''o'' ''r'' ''new''
      (example_world [example_run 1 ''new'' ''completed'' (Some ''success'') None] []) =
     (Return (Some (example_run 1 ''new'' ''in-progress'' (Some ''success'') None), None),
      \<lparr>runs = [(''o'', ''r'', example_run 1 ''new'' ''in-progress'' (Some ''success'') None)],
       next_id = 100, now = 7, script = [],
       trace = [ListCheckRunsForRef_call ''o'' ''r'' ''new'' (name_filter title_plugin),
                UpdateCheckRun_call ''o'' ''r'' 1 (reset_options title_plugin)]\<rparr>) \<and>
   fst (resetCheckRun title_plugin ''o'' ''r'' ''new''
      (example_world [example_run 1 ''new'' ''completed'' (Some ''success'') None]
         [None, Some (GoError ''503'' [] None)])) =
     Return (None, Some (GoError ''unable to reset check run: 503'' [] (Some (GoError ''503'' [] None))))"
proof -
  note g1 = getCheckRun_example_ok [where sha = "''new''"]
  note g2 = getCheckRun_example_ok_then [where sha = "''new''" and sc = "[Some (GoError ''503'' [] None)]"]
  have s1: "GetStatus (Some (example_run 1 ''new'' ''in-progress'' None None)) = ''in-progress''"
    by (simp add: GetStatus_def example_run_def)
  have s2: "None = (None :: go_error option) \<and>
      GetStatus (Some (example_run 1 ''new'' ''completed'' (Some ''success'') None)) \<noteq> ''in-progress''"
    by (simp add: GetStatus_def example_run_def)
  have sc: "script (after_call (ListCheckRunsForRef_call ''o'' ''r'' ''new'' (name_filter title_plugin))
        (example_world [example_run 1 ''new'' ''completed'' (Some ''success'') None]
         [None, Some (GoError ''503'' [] None)])) = [Some (GoError ''503'' [] None)]"
    by (simp add: after_call_fields example_world_def)
  note a = resetCheckRun_behaviour [OF g1 [of "''in-progress''" None None],
             THEN conjunct1, rule_format, OF disjI2 [OF s1]]
  note b = resetCheckRun_behaviour [OF g1 [of "''completed''" "Some ''success''" None],
             THEN conjunct2, rule_format, OF s2, THEN conjunct1]
  note c = resetCheckRun_behaviour [OF g2 [of "''completed''" "Some ''success''" None],
             THEN conjunct2, rule_format, OF s2, THEN conjunct2, THEN conjunct1, rule_format, OF sc]
  have ev: "resetCheckRun title_plugin ''o'' ''r'' ''new''
      (example_world [example_run 1 ''new'' ''completed'' (Some ''success'') None] []) =
     (Return (Some (example_run 1 ''new'' ''in-progress'' (Some ''success'') None), None),
      \<lparr>runs = [(''o'', ''r'', example_run 1 ''new'' ''in-progress'' (Some ''success'') None)],
       next_id = 100, now = 7, script = [],
       trace = [ListCheckRunsForRef_call ''o'' ''r'' ''new'' (name_filter title_plugin),
                UpdateCheckRun_call ''o'' ''r'' 1 (reset_options title_plugin)]\<rparr>)"
    by (simp add: eval_defs)
  show ?thesis
    using a b c ev by (simp add: Errorf_w_def)
qed

text \<open>
  C9 as it was stated fails: with one completed run in the store and an update call that
  fails, \<open>getCheckRun\<close> fetched the run, and \<open>resetCheckRun\<close> returns the error with no
  run.
\<close>

theorem resetCheckRun_update_failure_counterexample:
  "fst (getCheckRun title_plugin ''o'' ''r'' ''new''
      (example_world [example_run 1 ''new'' ''completed'' (Some ''success'') None]
         [None, Some (GoError ''503'' [] None)])) =
     Return (Some (example_run 1 ''new'' ''completed'' (Some ''success'') None), None) \<and>
   fst (resetCheckRun title_plugin ''o'' ''r'' ''new''
      (example_world [example_run 1 ''new'' ''completed'' (Some ''success'') None]
         [None, Some (GoError ''503'' [] None)])) =
     Return (None, Some (GoError ''unable to reset check run: 503'' [] (Some (GoError ''503'' [] None)))) \<and>
   fst (resetCheckRun title_plugin ''o'' ''r'' ''new''
      (example_world [example_run 1 ''new'' ''completed'' (Some ''success'') None]
         [None, Some (GoError ''503'' [] None)])) \<noteq>
     Return (Some (example_run 1 ''new'' ''completed'' (Some ''success'') None),
             Some (GoError ''unable to reset check run: 503'' [] (Some (GoError ''503'' [] None))))"
  by (simp add: eval_defs)

subsection \<open>Processing and submitting\<close>

lemma finishCheckRun_eq:
  "finishCheckRun p owner repo i conclusion summary detail w =
     (case UpdateCheckRun owner repo i (finish_options p (now w) conclusion summary detail) w of
        ((checkRun, Some e), w1) \<Rightarrow>
          ((checkRun, Some (Errorf_w ''unable to update check run with results: '' e)), w1)
      | ((checkRun, None), w1) \<Rightarrow> ((checkRun, None), w1))"
  by (simp add: finishCheckRun_def finish_options_def split: prod.splits option.splits)

lemma processAndSubmit_eq:
  assumes "fst (processPR p (PullRequest (Event env)) w) = (conclusion, summary, detail, procErr)"
  shows "processAndSubmit p env c w =
     (case UpdateCheckRun (Owner env) (Repo env) (GetID c)
             (finish_options p (now w) conclusion summary detail)
             (record_call (ProcessPR_call (PullRequest (Event env))) w) of
        ((c2, Some e), w2) \<Rightarrow>
          ((c2, Some (Errorf_w ''unable to update check run with results: '' e)), w2)
      | ((c2, None), w2) \<Rightarrow>
          (case procErr of
             Some pe \<Rightarrow> ((c2, Some (Errorf_v ''failed: '' (Error pe))), w2)
           | None \<Rightarrow> ((c2, None), w2)))"
proof -
  obtain x w1 where pp: "processPR p (PullRequest (Event env)) w = (x, w1)"
    by (cases "processPR p (PullRequest (Event env)) w")
  with assms processPR_snd [of p "PullRequest (Event env)" w]
  have "x = (conclusion, summary, detail, procErr)"
    and "w1 = record_call (ProcessPR_call (PullRequest (Event env))) w"
    by simp_all
  with pp show ?thesis
    by (simp add: processAndSubmit_def finishCheckRun_eq record_call_def
             split: prod.splits option.splits)
qed

lemma processAndSubmit_trace:
  assumes "fst (processPR p (PullRequest (Event env)) w) = (conclusion, summary, detail, procErr)"
  shows "trace (snd (processAndSubmit p env c w)) =
     trace w @ [ProcessPR_call (PullRequest (Event env)),
                UpdateCheckRun_call (Owner env) (Repo env) (GetID c)
                  (finish_options p (now w) conclusion summary detail)]"
proof -
  let ?w1 = "record_call (ProcessPR_call (PullRequest (Event env))) w"
  let ?u = "UpdateCheckRun (Owner env) (Repo env) (GetID c)
             (finish_options p (now w) conclusion summary detail) ?w1"
  have "snd (processAndSubmit p env c w) = snd ?u"
    by (simp add: processAndSubmit_eq [OF assms] split: prod.splits option.splits)
  then show ?thesis
    by (simp add: UpdateCheckRun_trace record_call_def)
qed

lemma processAndSubmit_keys:
  "map run_key (runs (snd (processAndSubmit p env c w))) = map run_key (runs w)"
proof -
  obtain a b d e where f: "fst (processPR p (PullRequest (Event env)) w) = (a, b, d, e)"
    by (cases "fst (processPR p (PullRequest (Event env)) w)")
  let ?w1 = "record_call (ProcessPR_call (PullRequest (Event env))) w"
  let ?u = "UpdateCheckRun (Owner env) (Repo env) (GetID c) (finish_options p (now w) a b d) ?w1"
  have "snd (processAndSubmit p env c w) = snd ?u"
    by (simp add: processAndSubmit_eq [OF f] split: prod.splits option.splits)
  then show ?thesis
    by (simp add: UpdateCheckRun_keys record_call_def)
qed

lemma processAndSubmit_failure:
  assumes "ProcessPR p (PullRequest (Event env)) = (detail, Some e)"
  shows "snd (fst (processAndSubmit p env c w)) \<noteq> None"
  by (simp add: processAndSubmit_eq [OF processPR_fst_failure [OF assms]] split: prod.splits option.splits)

lemma processAndSubmit_Some:
  assumes pr: "fst (processPR p (PullRequest (Event env)) w) = (conclusion, summary, detail, procErr)"
    and r: "fst (processAndSubmit p env c w) = (Some c2, err)"
  shows "err = (case procErr of None \<Rightarrow> None | Some pe \<Rightarrow> Some (Errorf_v ''failed: '' (Error pe)))"
    and "CheckRun.Conclusion c2 = Some conclusion"
    and "CheckRun.Status c2 = Some ''completed''"
    and "CheckRun.Output c2 =
           Some \<lparr>CheckRunOutput.Title = Some (PRPlugin.Title p), Summary = Some summary,
                 Text = Some detail\<rparr>"
    and "(Owner env, Repo env, c2) \<in> set (runs (snd (processAndSubmit p env c w)))"
proof -
  let ?opts = "finish_options p (now w) conclusion summary detail"
  let ?u = "UpdateCheckRun (Owner env) (Repo env) (GetID c) ?opts
              (record_call (ProcessPR_call (PullRequest (Event env))) w)"
  note eq = processAndSubmit_eq [OF pr, where c = c]
  obtain c3 err3 w3 where u: "?u = ((c3, err3), w3)" by (metis surj_pair)
  with eq r have c3: "c3 = Some c2" by (simp split: option.splits)
  with u have "fst ?u = (Some c2, err3)" by simp
  from UpdateCheckRun_Some [OF this] u
  have e3: "err3 = None" and "\<exists>x. c2 = updated_run ?opts x" and m: "(Owner env, Repo env, c2) \<in> set (runs w3)"
    by simp_all
  then obtain x where x: "c2 = updated_run ?opts x" by blast
  from eq u r c3 e3
  show "err = (case procErr of None \<Rightarrow> None | Some pe \<Rightarrow> Some (Errorf_v ''failed: '' (Error pe)))"
    by (simp split: option.splits)
  from x show "CheckRun.Conclusion c2 = Some conclusion" "CheckRun.Status c2 = Some ''completed''"
    "CheckRun.Output c2 =
           Some \<lparr>CheckRunOutput.Title = Some (PRPlugin.Title p), Summary = Some summary,
                 Text = Some detail\<rparr>"
    by (simp_all add: updated_run_def finish_options_def)
  from eq u e3 m show "(Owner env, Repo env, c2) \<in> set (runs (snd (processAndSubmit p env c w)))"
    by (simp split: option.splits)
qed

lemma after_verification_failure:
  assumes pp: "ProcessPR p (PullRequest (Event env)) = (detail, Some e)"
    and r: "only_remote_calls w w1"
  shows "snd (fst (processAndSubmit p env c w1)) \<noteq> None"
    and "new_calls w (snd (processAndSubmit p env c w1)) =
           new_calls w w1 @
           [ProcessPR_call (PullRequest (Event env)),
            UpdateCheckRun_call (Owner env) (Repo env) (GetID c)
              (finish_options p (now w) ''failure'' (Error e)
                 (case errors_As_ErrorWithHelp e of Some helpErr \<Rightarrow> Help helpErr | None \<Rightarrow> detail))]"
proof -
  show "snd (fst (processAndSubmit p env c w1)) \<noteq> None"
    by (rule processAndSubmit_failure [OF pp])
  from processAndSubmit_trace [OF processPR_fst_failure [OF pp], where w = w1 and c = c]
       only_remote_callsD(1,2) [OF r]
  show "new_calls w (snd (processAndSubmit p env c w1)) =
           new_calls w w1 @
           [ProcessPR_call (PullRequest (Event env)),
            UpdateCheckRun_call (Owner env) (Repo env) (GetID c)
              (finish_options p (now w) ''failure'' (Error e)
                 (case errors_As_ErrorWithHelp e of Some helpErr \<Rightarrow> Help helpErr | None \<Rightarrow> detail))]"
    by (intro new_calls_append) simp
qed

lemma ends_with_submitI1:
  "only_remote_calls w w1 \<Longrightarrow> processAndSubmit p env c w1 = ((c2, err2), w2) \<Longrightarrow>
   ends_with_submit p env w (Return err2, w2)"
  unfolding ends_with_submit_def by (intro disjI1 exI [of _ c] exI [of _ w1]) simp

lemma ends_with_submitI2:
  "only_remote_calls w w1 \<Longrightarrow> ends_with_submit p env w (res, w1)"
  unfolding ends_with_submit_def by simp

lemma onOpen_shape: "ends_with_submit p env w (onOpen p env w)"
proof -
  let ?sha = "GetSHA (GetHead (GetPullRequest (Event env)))"
  obtain c err w1 where cr: "createCheckRun p (Owner env) (Repo env) ?sha w = ((c, err), w1)"
    by (metis surj_pair)
  with createCheckRun_remote [of w p "Owner env" "Repo env" ?sha]
  have r: "only_remote_calls w w1" by simp
  show ?thesis
  proof (cases err)
    case (Some e)
    with cr r show ?thesis by (simp add: onOpen_def ends_with_submitI2)
  next
    case None
    obtain c2 err2 w2 where ps: "processAndSubmit p env c w1 = ((c2, err2), w2)"
      by (metis surj_pair)
    with cr None ends_with_submitI1 [OF r ps] show ?thesis by (simp add: onOpen_def)
  qed
qed

lemma onReopen_shape: "ends_with_submit p env w (onReopen p env w)"
proof -
  let ?sha = "GetSHA (GetHead (GetPullRequest (Event env)))"
  obtain res w1 where g: "getCheckRun p (Owner env) (Repo env) ?sha w = (res, w1)"
    by (metis surj_pair)
  with getCheckRun_remote [of w p "Owner env" "Repo env" ?sha]
  have r: "only_remote_calls w w1" by simp
  show ?thesis
  proof (cases res)
    case Panic
    with g r show ?thesis by (simp add: onReopen_def ends_with_submitI2)
  next
    case (Return x)
    obtain c err where x: "x = (c, err)" by (cases x)
    obtain c2 err2 w2 where ps: "processAndSubmit p env c w1 = ((c2, err2), w2)"
      by (metis surj_pair)
    from g Return x r ends_with_submitI1 [OF r ps] ps show ?thesis
      by (cases err) (simp_all add: onReopen_def ends_with_submitI2)
  qed
qed

lemma onEdit_shape: "ends_with_submit p env w (onEdit p env w)"
proof -
  let ?sha = "GetSHA (GetHead (GetPullRequest (Event env)))"
  obtain res w1 where g: "resetCheckRun p (Owner env) (Repo env) ?sha w = (res, w1)"
    by (metis surj_pair)
  with resetCheckRun_remote [of w p "Owner env" "Repo env" ?sha]
  have r: "only_remote_calls w w1" by simp
  show ?thesis
  proof (cases res)
    case Panic
    with g r show ?thesis by (simp add: onEdit_def ends_with_submitI2)
  next
    case (Return x)
    obtain c err where x: "x = (c, err)" by (cases x)
    obtain c2 err2 w2 where ps: "processAndSubmit p env c w1 = ((c2, err2), w2)"
      by (metis surj_pair)
    from g Return x r ends_with_submitI1 [OF r ps] ps show ?thesis
      by (cases err) (simp_all add: onEdit_def ends_with_submitI2)
  qed
qed

lemma onSync_shape:
  assumes pp: "ProcessPR p (PullRequest (Event env)) = (detail, Some e)"
  shows "ends_with_submit p env w (onSync p env w)"
proof -
  obtain res w1 where g: "getCheckRun p (Owner env) (Repo env) (GetBefore (Event env)) w = (res, w1)"
    by (metis surj_pair)
  with getCheckRun_remote [of w p "Owner env" "Repo env" "GetBefore (Event env)"]
  have r: "only_remote_calls w w1" by simp
  show ?thesis
  proof (cases res)
    case Panic
    with g r show ?thesis by (simp add: onSync_def ends_with_submitI2)
  next
    case (Return x)
    obtain c err where x: "x = (c, err)" by (cases x)
    obtain c2 err2 w2 where ps: "processAndSubmit p env c w1 = ((c2, err2), w2)"
      by (metis surj_pair)
    from processAndSubmit_failure [OF pp, where c = c and w = w1] ps obtain e2 where e2: "err2 = Some e2"
      by auto
    have d: "ends_with_submit p env w (onSync_duplicate p env c w1)"
      using only_remote_calls_trans [OF r onSync_duplicate_remote [of w1 p env c]]
      by (cases "onSync_duplicate p env c w1") (simp add: ends_with_submitI2)
    from g Return x r ends_with_submitI1 [OF r ps] ps e2 d show ?thesis
      by (cases err) (simp_all add: onSync_def ends_with_submitI2)
  qed
qed

lemma entrypoint_shape:
  assumes pp: "ProcessPR p (PullRequest (Event env)) = (detail, Some e)"
  shows "ends_with_submit p env w (entrypoint p env w)"
  by (simp add: entrypoint_def Let_def onOpen_shape onReopen_shape onEdit_shape onSync_shape [OF pp]
        ends_with_submitI2 only_remote_calls_refl)

lemma ends_with_submit_failure:
  assumes pp: "ProcessPR p (PullRequest (Event env)) = (detail, Some e)"
    and s: "ends_with_submit p env w out"
    and v: "list_ex is_ProcessPR_call (new_calls w (snd out))"
  shows "(\<exists>err. fst out = Return (Some err)) \<and>
     (\<exists>i. drop (length (new_calls w (snd out)) - 2) (new_calls w (snd out)) =
        [ProcessPR_call (PullRequest (Event env)),
         UpdateCheckRun_call (Owner env) (Repo env) i
           (finish_options p (now w) ''failure'' (Error e)
              (case errors_As_ErrorWithHelp e of Some helpErr \<Rightarrow> Help helpErr | None \<Rightarrow> detail))])"
proof -
  from s v only_remote_callsD(3) [of w "snd out"]
  obtain c w1 where r: "only_remote_calls w w1"
    and out: "out = (Return (snd (fst (processAndSubmit p env c w1))), snd (processAndSubmit p env c w1))"
    unfolding ends_with_submit_def by blast
  from after_verification_failure [OF pp r, where c = c] out
  show ?thesis by auto
qed

lemma title_plugin_no_prefix:
  "ProcessPR title_plugin (PullRequest (Event (example_env a ''no prefix''))) =
     ([], Some (prTitleTypeError_as_error (\<lambda>s. s) \<lparr>title = ''no prefix''\<rparr>))"
  by (simp add: title_plugin_def verifyPRType_def example_notes_def example_env_def example_pr_def
        GetTitle_def)

text \<open>
  C4. When the verification function fails, \<open>processAndSubmit\<close> does not stop early: it
  makes the finish (update) call with the conclusion "failure", and only then returns,
  always with a non-nil error; when the update succeeded, the run is stored completed
  with the conclusion "failure" and the error is "failed: " followed by the verification
  error's message. Every handler (\<open>onOpen\<close>, \<open>onReopen\<close>, \<open>onEdit\<close>, \<open>onSync\<close>, and
  \<open>entrypoint\<close> which dispatches to them) that ran the verification function returns a
  non-nil error, and the last two things it did were running the verification function
  and making that finish call.
\<close>

theorem verification_failure_recorded_then_returned:
  assumes "ProcessPR p (PullRequest (Event env)) = (detail, Some e)"
  shows
   "let submitted = (\<lambda>i.
          [ProcessPR_call (PullRequest (Event env)),
           UpdateCheckRun_call (Owner env) (Repo env) i
             (finish_options p (now w) ''failure'' (Error e)
                (case errors_As_ErrorWithHelp e of Some helpErr \<Rightarrow> Help helpErr | None \<Rightarrow> detail))])
    in snd (fst (processAndSubmit p env checkRun w)) \<noteq> None \<and>
       new_calls w (snd (processAndSubmit p env checkRun w)) = submitted (GetID checkRun) \<and>
       (\<forall>c2 err. fst (processAndSubmit p env checkRun w) = (Some c2, err) \<longrightarrow>
          err = Some (Errorf_v ''failed: '' (Error e)) \<and>
          CheckRun.Conclusion c2 = Some ''failure'' \<and> CheckRun.Status c2 = Some ''completed'' \<and>
          (Owner env, Repo env, c2) \<in> set (runs (snd (processAndSubmit p env checkRun w)))) \<and>
       (\<forall>h \<in> set [onOpen, onReopen, onEdit, onSync, entrypoint].
          list_ex is_ProcessPR_call (new_calls w (snd (h p env w))) \<longrightarrow>
            (\<exists>err. fst (h p env w) = Return (Some err)) \<and>
            (\<exists>i. drop (length (new_calls w (snd (h p env w))) - 2) (new_calls w (snd (h p env w)))
                   = submitted i))"
proof -
  note f = ends_with_submit_failure [OF assms]
  have 1: "snd (fst (processAndSubmit p env checkRun w)) \<noteq> None"
    by (rule processAndSubmit_failure [OF assms])
  from after_verification_failure(2) [OF assms only_remote_calls_refl, where w = w and c = checkRun]
  have 2: "new_calls w (snd (processAndSubmit p env checkRun w)) =
     [ProcessPR_call (PullRequest (Event env)),
           UpdateCheckRun_call (Owner env) (Repo env) (GetID checkRun)
             (finish_options p (now w) ''failure'' (Error e)
                (case errors_As_ErrorWithHelp e of Some helpErr \<Rightarrow> Help helpErr | None \<Rightarrow> detail))]"
    by (simp add: new_calls_def)
  note s = processAndSubmit_Some [OF processPR_fst_failure [OF assms], where c = checkRun and w = w]
  have 3: "\<forall>c2 err. fst (processAndSubmit p env checkRun w) = (Some c2, err) \<longrightarrow>
          err = Some (Errorf_v ''failed: '' (Error e)) \<and>
          CheckRun.Conclusion c2 = Some ''failure'' \<and> CheckRun.Status c2 = Some ''completed'' \<and>
          (Owner env, Repo env, c2) \<in> set (runs (snd (processAndSubmit p env checkRun w)))"
    using s(1,2,3,5) by simp
  note 4 = f [OF onOpen_shape] f [OF onReopen_shape] f [OF onEdit_shape] f [OF onSync_shape [OF assms]]
    f [OF entrypoint_shape [OF assms]]
  show ?thesis
    unfolding Let_def using 1 2 3 4 by simp
qed

theorem verification_failure_recorded_then_returned_witness:
  "ProcessPR title_plugin (PullRequest (Event (example_env ''edit'' ''no prefix''))) =
     ([], Some (prTitleTypeError_as_error (\<lambda>s. s) \<lparr>title = ''no prefix''\<rparr>)) \<and>
   list_ex is_ProcessPR_call
     (new_calls (example_world [example_run 1 ''new'' ''completed'' (Some ''success'') None] [])
        (snd (onEdit title_plugin (example_env ''edit'' ''no prefix'')
           (example_world [example_run 1 ''new'' ''completed'' (Some ''success'') None] [])))) \<and>
   onEdit title_plugin (example_env ''edit'' ''no prefix'')
          (example_world [example_run 1 ''new'' ''completed'' (Some ''success'') None] []) =
     (Return (Some (GoError ''failed: no matching PR type indicator found in title'' [] None)),
      \<lparr>runs = [(''o'', ''r'',
          (example_run 1 ''new'' ''completed'' (Some ''failure'')
             (Some \<lparr>CheckRunOutput.Title = Some ''PR Type in Title'',
                    Summary = Some ''no matching PR type indicator found in title'',
                    Text = Some []\<rparr>))\<lparr>CheckRun.CompletedAt := Some 7\<rparr>)],
       next_id = 100, now = 7, script = [],
       trace = [ListCheckRunsForRef_call ''o'' ''r'' ''new'' \<lparr>CheckName = Some ''PR Type''\<rparr>,
                UpdateCheckRun_call ''o'' ''r'' 1 (reset_options title_plugin),
                ProcessPR_call (Some (example_pr ''no prefix'' ''new'')),
                UpdateCheckRun_call ''o'' ''r'' 1
                  (finish_options title_plugin 7 ''failure''
                     ''no matching PR type indicator found in title'' [])]\<rparr>)"
proof -
  have hyp: "ProcessPR title_plugin (PullRequest (Event (example_env ''edit'' ''no prefix''))) =
     ([], Some (prTitleTypeError_as_error (\<lambda>s. s) \<lparr>title = ''no prefix''\<rparr>))"
    by (rule title_plugin_no_prefix)
  have ev: "onEdit title_plugin (example_env ''edit'' ''no prefix'')
          (example_world [example_run 1 ''new'' ''completed'' (Some ''success'') None] []) =
     (Return (Some (GoError ''failed: no matching PR type indicator found in title'' [] None)),
      \<lparr>runs = [(''o'', ''r'',
          (example_run 1 ''new'' ''completed'' (Some ''failure'')
             (Some \<lparr>CheckRunOutput.Title = Some ''PR Type in Title'',
                    Summary = Some ''no matching PR type indicator found in title'',
                    Text = Some []\<rparr>))\<lparr>CheckRun.CompletedAt := Some 7\<rparr>)],
       next_id = 100, now = 7, script = [],
       trace = [ListCheckRunsForRef_call ''o'' ''r'' ''new'' \<lparr>CheckName = Some ''PR Type''\<rparr>,
                UpdateCheckRun_call ''o'' ''r'' 1 (reset_options title_plugin),
                ProcessPR_call (Some (example_pr ''no prefix'' ''new'')),
                UpdateCheckRun_call ''o'' ''r'' 1
                  (finish_options title_plugin 7 ''failure''
                     ''no matching PR type indicator found in title'' [])]\<rparr>)"
    by (simp add: eval_defs)
  have tr: "trace (example_world [example_run 1 ''new'' ''completed'' (Some ''success'') None] []) = []"
    by (simp add: example_world_def)
  show ?thesis
    using verification_failure_recorded_then_returned [OF hyp,
          where w = "example_world [example_run 1 ''new'' ''completed'' (Some ''success'') None] []"
            and checkRun = None]
    by (simp add: hyp ev tr new_calls_def)
qed

subsection \<open>The handlers\<close>

lemma report_failure_Panic:
  "report_failure (Some c) = Panic \<longleftrightarrow>
     CheckRun.Conclusion c = None \<or>
     (CheckRun.Conclusion c = Some ''failure'' \<and>
      (case CheckRun.Output c of None \<Rightarrow> True | Some out \<Rightarrow> Summary out = None))"
  by (auto simp: report_failure_def split: option.splits)

lemma onSync_duplicate_ok:
  assumes "call_succeeds w"
  shows "onSync_duplicate p env (Some c) w =
     (report_failure (Some (created_run (next_id w)
        \<lparr>CreateCheckRunOptions.Name = PRPlugin.Name p,
         CreateCheckRunOptions.HeadSHA = GetAfter (Event env),
         CreateCheckRunOptions.DetailsURL = CheckRun.DetailsURL c,
         CreateCheckRunOptions.ExternalID = CheckRun.ExternalID c,
         CreateCheckRunOptions.Status = CheckRun.Status c,
         CreateCheckRunOptions.Conclusion = CheckRun.Conclusion c,
         CreateCheckRunOptions.StartedAt = CheckRun.StartedAt c,
         CreateCheckRunOptions.CompletedAt = CheckRun.CompletedAt c,
         CreateCheckRunOptions.Output = CheckRun.Output c\<rparr>)),
      snd (duplicateCheckRun p (Owner env) (Repo env) (GetAfter (Event env)) (Some c) w))"
  using assms
  by (simp add: onSync_duplicate_def duplicateCheckRun_def CreateCheckRun_ok)

lemma onOpen_ok:
  assumes ok: "call_succeeds w"
    and pr: "fst (processPR p (PullRequest (Event env)) w) = (conclusion, summary, detail, procErr)"
  shows "new_calls w (snd (onOpen p env w)) =
           [CreateCheckRun_call (Owner env) (Repo env)
              (create_options p (GetSHA (GetHead (GetPullRequest (Event env))))),
            ProcessPR_call (PullRequest (Event env)),
            UpdateCheckRun_call (Owner env) (Repo env) (next_id w)
              (finish_options p (now w) conclusion summary detail)]"
    and "call_succeeds (w\<lparr>script := tl (script w)\<rparr>) \<Longrightarrow>
         (Owner env, Repo env,
            updated_run (finish_options p (now w) conclusion summary detail)
              (created_run (next_id w)
                 (create_options p (GetSHA (GetHead (GetPullRequest (Event env))))))) 
           \<in> set (runs (snd (onOpen p env w)))"
proof -
  let ?sha = "GetSHA (GetHead (GetPullRequest (Event env)))"
  let ?new = "created_run (next_id w) (create_options p ?sha)"
  let ?w1 = "(after_call (CreateCheckRun_call (Owner env) (Repo env) (create_options p ?sha)) w)
        \<lparr>runs := runs w @ [(Owner env, Repo env, ?new)], next_id := next_id w + 1\<rparr>"
  let ?opts = "finish_options p (now w) conclusion summary detail"
  let ?w2 = "record_call (ProcessPR_call (PullRequest (Event env))) ?w1"
  have pr1: "fst (processPR p (PullRequest (Event env)) ?w1) = (conclusion, summary, detail, procErr)"
    using pr processPR_fst_indep [of p "PullRequest (Event env)" w] by simp
  have id: "GetID (Some ?new) = next_id w" by (simp add: GetID_def created_run_def)
  have nw: "now ?w1 = now w" by (simp add: after_call_fields)
  have o: "snd (onOpen p env w) = snd (processAndSubmit p env (Some ?new) ?w1)"
    by (simp add: onOpen_def createCheckRun_ok [OF ok] split: prod.splits)
  from processAndSubmit_trace [OF pr1, of "Some ?new"]
  show "new_calls w (snd (onOpen p env w)) =
           [CreateCheckRun_call (Owner env) (Repo env) (create_options p ?sha),
            ProcessPR_call (PullRequest (Event env)),
            UpdateCheckRun_call (Owner env) (Repo env) (next_id w) ?opts]"
    by (simp add: o id nw new_calls_def after_call_fields)
  assume ok2: "call_succeeds (w\<lparr>script := tl (script w)\<rparr>)"
  then have ok2': "call_succeeds ?w2"
    by (simp add: call_succeeds_def record_call_def after_call_fields)
  have m: "(Owner env, Repo env, ?new) \<in> set (runs ?w2)"
    by (simp add: record_call_def)
  have i: "CheckRun.ID ?new = Some (next_id w)" by (simp add: created_run_def)
  have "snd (processAndSubmit p env (Some ?new) ?w1) =
        snd (UpdateCheckRun (Owner env) (Repo env) (next_id w) ?opts ?w2)"
    using processAndSubmit_eq [OF pr1, of "Some ?new"]
    by (simp add: id nw split: prod.splits option.splits)
  with UpdateCheckRun_member [OF ok2' m i, of ?opts] o
  show "(Owner env, Repo env, updated_run ?opts ?new) \<in> set (runs (snd (onOpen p env w)))"
    by simp
qed

text \<open>
  C5 (as amended). \<open>onReopen\<close>, once \<open>getCheckRun\<close> has returned a run: if the run is not
  completed, the handler is \<open>processAndSubmit\<close> on that run (the verification function is
  run, then the finish call is made with its outcome, and a run the finish call returns
  is stored completed with that outcome); if the run is completed with the conclusion
  "failure", the handler makes no further call and does not run the verification
  function, and, when the run carries an output summary, it returns the error "failed: "
  followed by that summary; if the run is completed with the conclusion "success", the
  handler returns \<^verbatim>\<open>nil\<close> having made the list call only.
\<close>

theorem onReopen_cases:
  assumes "getCheckRun p (Owner env) (Repo env) (GetSHA (GetHead (GetPullRequest (Event env)))) w
             = (Return (Some c, None), w1)"
  shows
   "(CheckRun.Status c \<noteq> Some ''completed'' \<longrightarrow>
       onReopen p env w =
         (Return (snd (fst (processAndSubmit p env (Some c) w1))),
          snd (processAndSubmit p env (Some c) w1)) \<and>
       (\<forall>conclusion summary detail procErr.
          fst (processPR p (PullRequest (Event env)) w1) = (conclusion, summary, detail, procErr) \<longrightarrow>
          new_calls w1 (snd (onReopen p env w)) =
            [ProcessPR_call (PullRequest (Event env)),
             UpdateCheckRun_call (Owner env) (Repo env) (GetID (Some c))
               (finish_options p (now w1) conclusion summary detail)] \<and>
          (\<forall>c2 err. fst (processAndSubmit p env (Some c) w1) = (Some c2, err) \<longrightarrow>
             CheckRun.Status c2 = Some ''completed'' \<and> CheckRun.Conclusion c2 = Some conclusion \<and>
             (Owner env, Repo env, c2) \<in> set (runs (snd (onReopen p env w)))))) \<and>
    (CheckRun.Status c = Some ''completed'' \<and> CheckRun.Conclusion c = Some ''failure'' \<longrightarrow>
       snd (onReopen p env w) = w1 \<and>
       \<not> list_ex is_ProcessPR_call (new_calls w (snd (onReopen p env w))) \<and>
       (\<forall>out s. CheckRun.Output c = Some out \<and> Summary out = Some s \<longrightarrow>
          fst (onReopen p env w) = Return (Some (Errorf_v ''failed: '' s)))) \<and>
    (CheckRun.Status c = Some ''completed'' \<and> CheckRun.Conclusion c = Some ''success'' \<longrightarrow>
       onReopen p env w = (Return None, w1) \<and> runs w1 = runs w \<and>
       new_calls w w1 =
         [ListCheckRunsForRef_call (Owner env) (Repo env)
            (GetSHA (GetHead (GetPullRequest (Event env)))) (name_filter p)])"
proof (intro conjI impI allI)
  assume n: "CheckRun.Status c \<noteq> Some ''completed''"
  with assms show o: "onReopen p env w =
         (Return (snd (fst (processAndSubmit p env (Some c) w1))),
          snd (processAndSubmit p env (Some c) w1))"
    by (simp add: onReopen_def GetStatus_completed split: prod.splits)
  fix conclusion summary detail procErr
  assume pr: "fst (processPR p (PullRequest (Event env)) w1) = (conclusion, summary, detail, procErr)"
  from processAndSubmit_trace [OF pr, where c = "Some c"] o
  show "new_calls w1 (snd (onReopen p env w)) =
            [ProcessPR_call (PullRequest (Event env)),
             UpdateCheckRun_call (Owner env) (Repo env) (GetID (Some c))
               (finish_options p (now w1) conclusion summary detail)]"
    by (simp add: new_calls_def)
  fix c2 err
  assume r: "fst (processAndSubmit p env (Some c) w1) = (Some c2, err)"
  from processAndSubmit_Some(2,3,5) [OF pr r] o
  show "CheckRun.Status c2 = Some ''completed''" "CheckRun.Conclusion c2 = Some conclusion"
    "(Owner env, Repo env, c2) \<in> set (runs (snd (onReopen p env w)))"
    by simp_all
next
  assume f: "CheckRun.Status c = Some ''completed'' \<and> CheckRun.Conclusion c = Some ''failure''"
  with assms have o: "onReopen p env w = (report_failure (Some c), w1)"
    by (simp add: onReopen_def GetStatus_completed)
  show w: "snd (onReopen p env w) = w1" by (simp add: o)
  from getCheckRun_remote [of w p "Owner env" "Repo env" "GetSHA (GetHead (GetPullRequest (Event env)))"]
       assms
  have "only_remote_calls w w1" by simp
  from only_remote_callsD(3) [OF this]
  show "\<not> list_ex is_ProcessPR_call (new_calls w (snd (onReopen p env w)))" by (simp add: w)
  fix out s
  assume "CheckRun.Output c = Some out \<and> Summary out = Some s"
  with f show "fst (onReopen p env w) = Return (Some (Errorf_v ''failed: '' s))"
    by (simp add: o report_failure_def)
next
  assume s: "CheckRun.Status c = Some ''completed'' \<and> CheckRun.Conclusion c = Some ''success''"
  with assms show "onReopen p env w = (Return None, w1)"
    by (simp add: onReopen_def GetStatus_completed report_failure_def)
  from s getCheckRun_completed [OF assms]
  have w1: "w1 = after_call (ListCheckRunsForRef_call (Owner env) (Repo env)
            (GetSHA (GetHead (GetPullRequest (Event env)))) (name_filter p)) w"
    by simp
  show "runs w1 = runs w" by (simp add: w1 after_call_fields)
  show "new_calls w w1 =
         [ListCheckRunsForRef_call (Owner env) (Repo env)
            (GetSHA (GetHead (GetPullRequest (Event env)))) (name_filter p)]"
    by (simp add: w1 after_call_fields new_calls_def)
qed

theorem onReopen_cases_witness:
  "onReopen title_plugin (example_env ''reopen'' '':bug: Fix it'')
      (example_world [example_run 1 ''new'' ''in-progress'' None None] []) =
     (Return None,
      \<lparr>runs = [(''o'', ''r'',
          (example_run 1 ''new'' ''completed'' (Some ''success'')
            (Some \<lparr>CheckRunOutput.Title = Some ''PR Type in Title'', Summary = Some ''Success'',
                   Text = Some (''Found '' @ [CHR 0xF0, CHR 0x9F, CHR 0x90, CHR 0x9B]
                     @ '' PR (bugfix) with final title:'' @ [CHR 0x0A, CHR 0x0A, CHR 0x09]
                     @ ''Fix it'' @ [CHR 0x0A])\<rparr>))\<lparr>CheckRun.CompletedAt := Some 7\<rparr>)],
       next_id = 100, now = 7, script = [],
       trace = [ListCheckRunsForRef_call ''o'' ''r'' ''new'' \<lparr>CheckName = Some ''PR Type''\<rparr>,
                ProcessPR_call (Some (example_pr '':bug: Fix it'' ''new'')),
                UpdateCheckRun_call ''o'' ''r'' 1
                  (finish_options title_plugin 7 ''success'' ''Success''
                     (''Found '' @ [CHR 0xF0, CHR 0x9F, CHR 0x90, CHR 0x9B]
                     @ '' PR (bugfix) with final title:'' @ [CHR 0x0A, CHR 0x0A, CHR 0x09]
                     @ ''Fix it'' @ [CHR 0x0A]))]\<rparr>) \<and>
   onReopen title_plugin (example_env ''reopen'' '':bug: Fix it'')
      (example_world [example_run 1 ''new'' ''completed'' (Some ''failure'')
                        (Some (example_output ''boom''))] []) =
     (Return (Some (GoError ''failed: boom'' [] None)),
      after_call (ListCheckRunsForRef_call ''o'' ''r'' ''new'' \<lparr>CheckName = Some ''PR Type''\<rparr>)
        (example_world [example_run 1 ''new'' ''completed'' (Some ''failure'')
                          (Some (example_output ''boom''))] [])) \<and>
   onReopen title_plugin (example_env ''reopen'' '':bug: Fix it'')
      (example_world [example_run 1 ''new'' ''completed'' (Some ''success'')
                        (Some (example_output ''Success''))] []) =
     (Return None,
      after_call (ListCheckRunsForRef_call ''o'' ''r'' ''new'' \<lparr>CheckName = Some ''PR Type''\<rparr>)
        (example_world [example_run 1 ''new'' ''completed'' (Some ''success'')
                          (Some (example_output ''Success''))] []))"
proof -
  have sha: "GetSHA (GetHead (GetPullRequest (Event (example_env ''reopen'' '':bug: Fix it'')))) = ''new''"
    "Owner (example_env ''reopen'' '':bug: Fix it'') = ''o''"
    "Repo (example_env ''reopen'' '':bug: Fix it'') = ''r''"
    by (simp_all add: example_defs getter_defs)
  note g = getCheckRun_example_ok [where sha = "''new''", folded sha]
  note a = onReopen_cases [OF g [of "''in-progress''" None None]]
  note b = onReopen_cases [OF g [of "''completed''" "Some ''failure''" "Some (example_output ''boom'')"]]
  note c = onReopen_cases [OF g [of "''completed''" "Some ''success''" "Some (example_output ''Success'')"]]
  show ?thesis
    using a b c
    by (simp add: eval_defs)
qed

text \<open>
  C5 as it was stated fails: a completed run with the conclusion "failure" and no output
  is fetched, and the handler returns no error: reading \<^verbatim>\<open>*checkRun.Output.Summary\<close>
  panics.
\<close>

theorem onReopen_failure_without_summary_counterexample:
  "fst (getCheckRun title_plugin ''o'' ''r'' ''new''
          (example_world [example_run 1 ''new'' ''completed'' (Some ''failure'') None] [])) =
     Return (Some (example_run 1 ''new'' ''completed'' (Some ''failure'') None), None) \<and>
   CheckRun.Status (example_run 1 ''new'' ''completed'' (Some ''failure'') None) = Some ''completed'' \<and>
   CheckRun.Conclusion (example_run 1 ''new'' ''completed'' (Some ''failure'') None) = Some ''failure'' \<and>
   onReopen title_plugin (example_env ''reopen'' '':bug: Fix it'')
      (example_world [example_run 1 ''new'' ''completed'' (Some ''failure'') None] []) =
     (Panic,
      after_call (ListCheckRunsForRef_call ''o'' ''r'' ''new'' \<lparr>CheckName = Some ''PR Type''\<rparr>)
        (example_world [example_run 1 ''new'' ''completed'' (Some ''failure'') None] []))"
  by (simp add: eval_defs)

text \<open>
  C10. \<open>onReopen\<close>, on a completed run, and \<open>onSync\<close>, on the duplicate of a completed
  run, dereference \<^verbatim>\<open>Conclusion\<close> with no nil check, and \<^verbatim>\<open>Output.Summary\<close> with no nil
  check when the conclusion is "failure". The handler panics exactly when the conclusion
  is \<^verbatim>\<open>nil\<close>, or is "failure" with a \<^verbatim>\<open>nil\<close> output or output summary; so the reads are
  safe when the completed run carries a conclusion and an output summary, and a
  completed run without a conclusion makes both handlers panic.
\<close>

theorem unguarded_pointer_reads:
  "(getCheckRun p (Owner env) (Repo env) (GetSHA (GetHead (GetPullRequest (Event env)))) w
        = (Return (Some c, None), w1) \<and>
    CheckRun.Status c = Some ''completed'' \<longrightarrow>
      (fst (onReopen p env w) = Panic \<longleftrightarrow>
         CheckRun.Conclusion c = None \<or>
         (CheckRun.Conclusion c = Some ''failure'' \<and>
          (case CheckRun.Output c of None \<Rightarrow> True | Some out \<Rightarrow> Summary out = None)))) \<and>
   (getCheckRun p (Owner env) (Repo env) (GetBefore (Event env)) w = (Return (Some c, None), w1) \<and>
    CheckRun.Status c = Some ''completed'' \<and> call_succeeds w1 \<longrightarrow>
      (fst (onSync p env w) = Panic \<longleftrightarrow>
         CheckRun.Conclusion c = None \<or>
         (CheckRun.Conclusion c = Some ''failure'' \<and>
          (case CheckRun.Output c of None \<Rightarrow> True | Some out \<Rightarrow> Summary out = None))))"
proof (intro conjI impI)
  assume a: "getCheckRun p (Owner env) (Repo env) (GetSHA (GetHead (GetPullRequest (Event env)))) w
        = (Return (Some c, None), w1) \<and> CheckRun.Status c = Some ''completed''"
  then have "onReopen p env w = (report_failure (Some c), w1)"
    by (simp add: onReopen_def GetStatus_completed)
  then show "fst (onReopen p env w) = Panic \<longleftrightarrow>
         CheckRun.Conclusion c = None \<or>
         (CheckRun.Conclusion c = Some ''failure'' \<and>
          (case CheckRun.Output c of None \<Rightarrow> True | Some out \<Rightarrow> Summary out = None))"
    by (simp add: report_failure_Panic)
next
  assume a: "getCheckRun p (Owner env) (Repo env) (GetBefore (Event env)) w = (Return (Some c, None), w1) \<and>
    CheckRun.Status c = Some ''completed'' \<and> call_succeeds w1"
  then have "onSync p env w = onSync_duplicate p env (Some c) w1"
    by (simp add: onSync_def GetStatus_completed)
  with a onSync_duplicate_ok [of w1 p env c]
  show "fst (onSync p env w) = Panic \<longleftrightarrow>
         CheckRun.Conclusion c = None \<or>
         (CheckRun.Conclusion c = Some ''failure'' \<and>
          (case CheckRun.Output c of None \<Rightarrow> True | Some out \<Rightarrow> Summary out = None))"
    by (simp add: report_failure_Panic created_run_def)
qed

theorem unguarded_pointer_reads_witness:
  "fst (onReopen title_plugin (example_env ''reopen'' '':bug: Fix it'')
      (example_world [example_run 1 ''new'' ''completed'' None None] [])) = Panic \<and>
   fst (onReopen title_plugin (example_env ''reopen'' '':bug: Fix it'')
      (example_world [example_run 1 ''new'' ''completed'' (Some ''failure'') None] [])) = Panic \<and>
   fst (onReopen title_plugin (example_env ''reopen'' '':bug: Fix it'')
      (example_world [example_run 1 ''new'' ''completed'' (Some ''failure'')
                        (Some (example_output ''boom''))] [])) \<noteq> Panic \<and>
   fst (onSync title_plugin (example_env ''synchronize'' '':bug: Fix it'')
      (example_world [example_run 1 ''old'' ''completed'' None None] [])) = Panic \<and>
   fst (onSync title_plugin (example_env ''synchronize'' '':bug: Fix it'')
      (example_world [example_run 1 ''old'' ''completed'' (Some ''failure'')
                        (Some \<lparr>CheckRunOutput.Title = None, Summary = None, Text = None\<rparr>)] [])) = Panic \<and>
   fst (onSync title_plugin (example_env ''synchronize'' '':bug: Fix it'')
      (example_world [example_run 1 ''old'' ''completed'' (Some ''success'')
                        (Some (example_output ''Success''))] [])) \<noteq> Panic"
proof -
  have e1: "GetSHA (GetHead (GetPullRequest (Event (example_env ''reopen'' '':bug: Fix it'')))) = ''new''"
    "Owner (example_env ''reopen'' '':bug: Fix it'') = ''o''"
    "Repo (example_env ''reopen'' '':bug: Fix it'') = ''r''"
    by (simp_all add: example_defs getter_defs)
  have e2: "GetBefore (Event (example_env ''synchronize'' '':bug: Fix it'')) = ''old''"
    "Owner (example_env ''synchronize'' '':bug: Fix it'') = ''o''"
    "Repo (example_env ''synchronize'' '':bug: Fix it'') = ''r''"
    by (simp_all add: example_defs getter_defs)
  note g1 = getCheckRun_example_ok [where sha = "''new''" and st = "''completed''", folded e1]
  note g2 = getCheckRun_example_ok [where sha = "''old''" and st = "''completed''", folded e2]
  have st: "\<And>sha c out. CheckRun.Status (example_run 1 sha ''completed'' c out) = Some ''completed''"
    by (simp add: example_run_def)
  have ok: "\<And>c rs. call_succeeds (after_call c (example_world rs []))"
    by (simp add: call_succeeds_def after_call_fields example_world_def)
  note t = unguarded_pointer_reads [where p = title_plugin]
  note a1 = t [THEN conjunct1, rule_format, OF conjI [OF g1 [of None None] st]]
  note a2 = t [THEN conjunct1, rule_format, OF conjI [OF g1 [of "Some ''failure''" None] st]]
  note a3 = t [THEN conjunct1, rule_format,
               OF conjI [OF g1 [of "Some ''failure''" "Some (example_output ''boom'')"] st]]
  note b1 = t [THEN conjunct2, rule_format, OF conjI [OF g2 [of None None] conjI [OF st ok]]]
  note b2 = t [THEN conjunct2, rule_format,
               OF conjI [OF g2 [of "Some ''failure''"
                   "Some \<lparr>CheckRunOutput.Title = None, Summary = None, Text = None\<rparr>"] conjI [OF st ok]]]
  note b3 = t [THEN conjunct2, rule_format,
               OF conjI [OF g2 [of "Some ''success''" "Some (example_output ''Success'')"] conjI [OF st ok]]]
  show ?thesis
    using a1 a2 a3 b1 b2 b3
    by (simp add: example_run_def example_output_def e1 e2)
qed

text \<open>
  C2. The design has \<open>onSync\<close> always duplicate the old commit's run to the new head
  commit. The code does not when it has just run the verification and the verification
  failed: \<open>processAndSubmit\<close> returns the error "failed: ...", and \<open>onSync\<close> returns that
  error before the duplication. Whenever \<open>getCheckRun\<close> returned a run that is not
  completed and the verification function fails, \<open>onSync\<close> returns an error, the calls
  it made after the fetch are the verification and the finish call, and the store holds
  the same runs on the same commits as after the fetch: none is bound to the new head
  commit that was not before.
\<close>

theorem onSync_failed_verification_returns_before_duplicating:
  assumes g: "getCheckRun p (Owner env) (Repo env) (GetBefore (Event env)) w = (Return (Some c, None), w1)"
    and n: "CheckRun.Status c \<noteq> Some ''completed''"
    and pp: "ProcessPR p (PullRequest (Event env)) = (detail, Some e)"
  shows "(\<exists>err. fst (onSync p env w) = Return (Some err)) \<and>
         snd (onSync p env w) = snd (processAndSubmit p env (Some c) w1) \<and>
         new_calls w1 (snd (onSync p env w)) =
           [ProcessPR_call (PullRequest (Event env)),
            UpdateCheckRun_call (Owner env) (Repo env) (GetID (Some c))
              (finish_options p (now w1) ''failure'' (Error e)
                 (case errors_As_ErrorWithHelp e of Some helpErr \<Rightarrow> Help helpErr | None \<Rightarrow> detail))] \<and>
         map run_key (runs (snd (onSync p env w))) = map run_key (runs w1)"
proof -
  obtain c2 err2 w2 where ps: "processAndSubmit p env (Some c) w1 = ((c2, err2), w2)"
    by (metis surj_pair)
  from processAndSubmit_failure [OF pp, where c = "Some c" and w = w1] ps
  obtain e2 where e2: "err2 = Some e2" by auto
  from g n ps e2 have o: "onSync p env w = (Return (Some e2), w2)"
    by (simp add: onSync_def GetStatus_completed)
  from processAndSubmit_trace [OF processPR_fst_failure [OF pp], where w = w1 and c = "Some c"]
       processAndSubmit_keys [of p env "Some c" w1] o ps
  show ?thesis by (simp add: new_calls_def)
qed

theorem onSync_failed_verification_returns_before_duplicating_witness:
  "onSync title_plugin (example_env ''synchronize'' ''no prefix'')
      (example_world [example_run 1 ''old'' ''in-progress'' None None] []) =
     (Return (Some (GoError ''failed: no matching PR type indicator found in title'' [] None)),
      \<lparr>runs = [(''o'', ''r'',
          (example_run 1 ''old'' ''completed'' (Some ''failure'')
            (Some \<lparr>CheckRunOutput.Title = Some ''PR Type in Title'',
                   Summary = Some ''no matching PR type indicator found in title'',
                   Text = Some []\<rparr>))\<lparr>CheckRun.CompletedAt := Some 7\<rparr>)],
       next_id = 100, now = 7, script = [],
       trace = [ListCheckRunsForRef_call ''o'' ''r'' ''old'' \<lparr>CheckName = Some ''PR Type''\<rparr>,
                ProcessPR_call (Some (example_pr ''no prefix'' ''new'')),
                UpdateCheckRun_call ''o'' ''r'' 1
                  (finish_options title_plugin 7 ''failure''
                     ''no matching PR type indicator found in title'' [])]\<rparr>)"
proof -
  have e2: "GetBefore (Event (example_env ''synchronize'' ''no prefix'')) = ''old''"
    "Owner (example_env ''synchronize'' ''no prefix'') = ''o''"
    "Repo (example_env ''synchronize'' ''no prefix'') = ''r''"
    by (simp_all add: example_defs getter_defs)
  note g = getCheckRun_example_ok [where sha = "''old''" and st = "''in-progress''" and concl = None
             and out = None, folded e2]
  have n: "\<And>sha. CheckRun.Status (example_run 1 sha ''in-progress'' None None) \<noteq> Some ''completed''"
    by (simp add: example_run_def)
  have pp: "ProcessPR title_plugin (PullRequest (Event (example_env ''synchronize'' ''no prefix''))) =
     ([], Some (prTitleTypeError_as_error (\<lambda>s. s) \<lparr>title = ''no prefix''\<rparr>))"
    by (rule title_plugin_no_prefix)
  show ?thesis
    using onSync_failed_verification_returns_before_duplicating [OF g n pp]
    by (simp add: eval_defs)
qed

text \<open>
  C8. The kinds are those of \<open>kind_of_action\<close>: the kind opened is the action string
  "open", and the kind other is every string that is none of "open", "reopen", "edit",
  "synchronize". For an event of the kind opened, \<open>entrypoint\<close> is \<open>onOpen\<close>, which (the
  create call succeeding) makes a create call for the pull request's head commit with the
  status \<open>Started\<close>, runs the verification function, and makes the finish call on the
  created run with the outcome; when the finish call succeeds too, the created run is
  stored with that outcome. For an event of the kind other, \<open>entrypoint\<close> returns \<^verbatim>\<open>nil\<close>
  and does nothing.
\<close>

theorem entrypoint_dispatch:
  "(kind_of_action (GetAction (Event env)) = Opened \<longleftrightarrow> GetAction (Event env) = ''open'') \<and>
   (kind_of_action (GetAction (Event env)) = Other \<longleftrightarrow>
      GetAction (Event env) \<notin> {''open'', ''reopen'', ''edit'', ''synchronize''}) \<and>
   (kind_of_action (GetAction (Event env)) = Opened \<longrightarrow>
      entrypoint p env w = onOpen p env w \<and>
      (\<forall>conclusion summary detail procErr.
         call_succeeds w \<and>
         fst (processPR p (PullRequest (Event env)) w) = (conclusion, summary, detail, procErr) \<longrightarrow>
           new_calls w (snd (onOpen p env w)) =
             [CreateCheckRun_call (Owner env) (Repo env)
                (create_options p (GetSHA (GetHead (GetPullRequest (Event env))))),
              ProcessPR_call (PullRequest (Event env)),
              UpdateCheckRun_call (Owner env) (Repo env) (next_id w)
                (finish_options p (now w) conclusion summary detail)] \<and>
           (call_succeeds (w\<lparr>script := tl (script w)\<rparr>) \<longrightarrow>
              (Owner env, Repo env,
                 updated_run (finish_options p (now w) conclusion summary detail)
                   (created_run (next_id w)
                      (create_options p (GetSHA (GetHead (GetPullRequest (Event env)))))))
                \<in> set (runs (snd (onOpen p env w)))))) \<and>
   (kind_of_action (GetAction (Event env)) = Other \<longrightarrow>
      entrypoint p env w = (Return None, w))"
proof -
  have k1: "kind_of_action (GetAction (Event env)) = Opened \<longleftrightarrow> GetAction (Event env) = ''open''"
    by (simp add: kind_of_action_def)
  have k2: "kind_of_action (GetAction (Event env)) = Other \<longleftrightarrow>
      GetAction (Event env) \<notin> {''open'', ''reopen'', ''edit'', ''synchronize''}"
    by (simp add: kind_of_action_def)
  have d1: "GetAction (Event env) = ''open'' \<Longrightarrow> entrypoint p env w = onOpen p env w"
    by (simp add: entrypoint_def)
  have d2: "GetAction (Event env) \<notin> {''open'', ''reopen'', ''edit'', ''synchronize''} \<Longrightarrow>
      entrypoint p env w = (Return None, w)"
    by (simp add: entrypoint_def)
  show ?thesis
    unfolding k1 k2 using onOpen_ok [of w p env] d1 d2 by blast
qed

theorem entrypoint_dispatch_witness:
  "kind_of_action (GetAction (Event (example_env ''open'' '':bug: Fix it''))) = Opened \<and>
   entrypoint title_plugin (example_env ''open'' '':bug: Fix it'') (example_world [] []) =
     onOpen title_plugin (example_env ''open'' '':bug: Fix it'') (example_world [] []) \<and>
   onOpen title_plugin (example_env ''open'' '':bug: Fix it'') (example_world [] []) =
     (Return None,
      \<lparr>runs = [(''o'', ''r'',
          (example_run 100 ''new'' ''completed'' (Some ''success'')
            (Some \<lparr>CheckRunOutput.Title = Some ''PR Type in Title'', Summary = Some ''Success'',
                   Text = Some (''Found '' @ [CHR 0xF0, CHR 0x9F, CHR 0x90, CHR 0x9B]
                     @ '' PR (bugfix) with final title:'' @ [CHR 0x0A, CHR 0x0A, CHR 0x09]
                     @ ''Fix it'' @ [CHR 0x0A])\<rparr>))\<lparr>CheckRun.CompletedAt := Some 7\<rparr>)],
       next_id = 101, now = 7, script = [],
       trace = [CreateCheckRun_call ''o'' ''r'' (create_options title_plugin ''new''),
                ProcessPR_call (Some (example_pr '':bug: Fix it'' ''new'')),
                UpdateCheckRun_call ''o'' ''r'' 100
                  (finish_options title_plugin 7 ''success'' ''Success''
                     (''Found '' @ [CHR 0xF0, CHR 0x9F, CHR 0x90, CHR 0x9B]
                     @ '' PR (bugfix) with final title:'' @ [CHR 0x0A, CHR 0x0A, CHR 0x09]
                     @ ''Fix it'' @ [CHR 0x0A]))]\<rparr>) \<and>
   kind_of_action (GetAction (Event (example_env ''closed'' '':bug: Fix it''))) = Other \<and>
   entrypoint title_plugin (example_env ''closed'' '':bug: Fix it'') (example_world [] []) =
     (Return None, example_world [] [])"
proof -
  have a: "kind_of_action (GetAction (Event (example_env ''open'' '':bug: Fix it''))) = Opened"
    by (simp add: example_env_def GetAction_def kind_of_action_def)
  have b: "kind_of_action (GetAction (Event (example_env ''closed'' '':bug: Fix it''))) = Other"
    by (simp add: example_env_def GetAction_def kind_of_action_def)
  have ev: "onOpen title_plugin (example_env ''open'' '':bug: Fix it'') (example_world [] []) =
     (Return None,
      \<lparr>runs = [(''o'', ''r'',
          (example_run 100 ''new'' ''completed'' (Some ''success'')
            (Some \<lparr>CheckRunOutput.Title = Some ''PR Type in Title'', Summary = Some ''Success'',
                   Text = Some (''Found '' @ [CHR 0xF0, CHR 0x9F, CHR 0x90, CHR 0x9B]
                     @ '' PR (bugfix) with final title:'' @ [CHR 0x0A, CHR 0x0A, CHR 0x09]
                     @ ''Fix it'' @ [CHR 0x0A])\<rparr>))\<lparr>CheckRun.CompletedAt := Some 7\<rparr>)],
       next_id = 101, now = 7, script = [],
       trace = [CreateCheckRun_call ''o'' ''r'' (create_options title_plugin ''new''),
                ProcessPR_call (Some (example_pr '':bug: Fix it'' ''new'')),
                UpdateCheckRun_call ''o'' ''r'' 100
                  (finish_options title_plugin 7 ''success'' ''Success''
                     (''Found '' @ [CHR 0xF0, CHR 0x9F, CHR 0x90, CHR 0x9B]
                     @ '' PR (bugfix) with final title:'' @ [CHR 0x0A, CHR 0x0A, CHR 0x09]
                     @ ''Fix it'' @ [CHR 0x0A]))]\<rparr>)"
    by (simp add: eval_defs)
  note t = entrypoint_dispatch [where p = title_plugin and w = "example_world [] []"]
  note t1 = t [where env = "example_env ''open'' '':bug: Fix it''",
               THEN conjunct2, THEN conjunct2, THEN conjunct1, rule_format, OF a, THEN conjunct1]
  note t2 = t [where env = "example_env ''closed'' '':bug: Fix it''",
               THEN conjunct2, THEN conjunct2, THEN conjunct2, rule_format, OF b]
  show ?thesis
    using t1 t2 a b ev by simp
qed

subsection \<open>The title check\<close>

text \<open>
  C7. The design has the error of \<open>verifyPRType\<close> expose its extended help through
  the \<^verbatim>\<open>ErrorWithHelp\<close> path. The code's \<^verbatim>\<open>prTitleTypeError\<close> has the methods \<^verbatim>\<open>Error\<close>
  and \<^verbatim>\<open>Details\<close> and no \<^verbatim>\<open>Help\<close>: for every title that the classifier maps to the
  uncategorized sentinel, \<open>verifyPRType\<close> returns an empty text and an error that carries
  the list of prefixes under \<^verbatim>\<open>Details\<close>, does not implement \<^verbatim>\<open>ErrorWithHelp\<close>, and is not
  found by \<^verbatim>\<open>errors.As\<close>; \<open>processPR\<close> then returns the empty text.
\<close>

theorem verifyPRType_error_has_no_Help:
  assumes "fst (PRTypeFromTitle notes (GetTitle pr)) = UncategorizedPR"
  shows "verifyPRType notes rest pr = ([], Some (prTitleTypeError_as_error rest \<lparr>title = GetTitle pr\<rparr>)) \<and>
         map_of (methods (prTitleTypeError_as_error rest \<lparr>title = GetTitle pr\<rparr>)) ''Details''
           = Some (prTitleTypeError_Details rest \<lparr>title = GetTitle pr\<rparr>) \<and>
         \<not> implements_ErrorWithHelp (prTitleTypeError_as_error rest \<lparr>title = GetTitle pr\<rparr>) \<and>
         errors_As_ErrorWithHelp (prTitleTypeError_as_error rest \<lparr>title = GetTitle pr\<rparr>) = None \<and>
         fst (processPR (p\<lparr>ProcessPR := verifyPRType notes rest\<rparr>) pr w) =
           (''failure'', ''no matching PR type indicator found in title'', [],
            Some (prTitleTypeError_as_error rest \<lparr>title = GetTitle pr\<rparr>))"
  using assms
  by (auto simp: verifyPRType_def prTitleTypeError_as_error_def implements_ErrorWithHelp_def
        processPR_def prTitleTypeError_Error_def split: prod.splits)

theorem verifyPRType_error_has_no_Help_witness:
  "fst (PRTypeFromTitle example_notes (GetTitle (Some (example_pr ''Add support for widgets'' ''new''))))
     = UncategorizedPR \<and>
   fst (verifyPRType example_notes (\<lambda>s. s) (Some (example_pr ''Add support for widgets'' ''new''))) = [] \<and>
   errors_As_ErrorWithHelp
     (prTitleTypeError_as_error (\<lambda>s. s) \<lparr>title = ''Add support for widgets''\<rparr>) = None \<and>
   fst (processPR title_plugin (Some (example_pr ''Add support for widgets'' ''new'')) (example_world [] [])) =
     (''failure'', ''no matching PR type indicator found in title'', [],
      Some (prTitleTypeError_as_error (\<lambda>s. s) \<lparr>title = ''Add support for widgets''\<rparr>))"
proof -
  have h: "fst (PRTypeFromTitle example_notes (GetTitle (Some (example_pr ''Add support for widgets'' ''new''))))
     = UncategorizedPR"
    by (simp add: example_notes_def example_pr_def GetTitle_def)
  have t: "GetTitle (Some (example_pr ''Add support for widgets'' ''new'')) = ''Add support for widgets''"
    by (simp add: example_pr_def GetTitle_def)
  have p: "title_plugin\<lparr>ProcessPR := verifyPRType example_notes (\<lambda>s. s)\<rparr> = title_plugin"
    by (simp add: title_plugin_def)
  from verifyPRType_error_has_no_Help [OF h, of "\<lambda>s. s" title_plugin "example_world [] []"] h
  show ?thesis
    by (simp add: t p)
qed

end
